theory Spec2Isabelle
  imports Main "HOL-Library.Word"
begin

section \<open>Shared data of the buffer package\<close>

text \<open>
  Go's \<open>error\<close> values. \<open>io.EOF\<close> is a sentinel compared by identity, \<open>errors.New\<close> builds a
  fresh error from a message, and every other error value (gRPC status errors, transport
  errors of the collaborators) is kept opaque. A nilable \<open>error\<close> is an \<open>error option\<close>,
  \<open>None\<close> being \<open>nil\<close>.
\<close>

datatype error = EOF | New string | External nat

type_synonym byte = "8 word"

text \<open>
  The digest is a collaborator of the package (\<open>pkg/digest\<close>); only its three getters are used:
  \<open>GetInstance\<close>, \<open>GetHashString\<close> and \<open>GetSizeBytes\<close> (an \<open>int64\<close>).
\<close>

record Digest =
  GetInstance :: string
  GetHashString :: string
  GetSizeBytes :: int

text \<open>
  \<open>ChunkPolicy\<close> and \<open>RepairStrategy\<close> are declared outside the files at hand. The code only
  passes them on: \<open>chunkSizeDontCare\<close>, \<open>ChunkSizeAtMost n\<close> and \<open>Irreparable\<close> are the values
  it names.
\<close>

datatype ChunkPolicy = chunkSizeDontCare | ChunkSizeAtMost int

datatype RepairStrategy = Irreparable | Reparable nat

datatype ActionResult = ActionResult "byte list"

text \<open>
  A buffer is either the error buffer of \<open>error_buffer.go\<close> or some other implementation of
  the \<open>Buffer\<close> interface, whose methods are supplied by the record \<open>ExternalBuffer\<close>.
\<close>

datatype 'x Buffer = errorBuffer error | externalBuffer 'x

text \<open>
  The chains of readers the buffers build. Every constructor stands for one constructor
  function of the package (\<open>newErrorChunkReader\<close>, \<open>newErrorHandlingChunkReader\<close>,
  \<open>newCASValidatingChunkReader\<close>, \<open>newOffsetChunkReader\<close>, \<open>newNormalizingChunkReader\<close>,
  \<open>newMultiplexedChunkReader\<close>) applied to the arguments the code passes; the two
  \<open>external\<close> constructors are the method calls \<open>ToChunkReader\<close> and
  \<open>toUnvalidatedChunkReader\<close> on a buffer implemented elsewhere.
\<close>

datatype ('x, 'e) ChunkReader =
    errorChunkReader error
  | externalToChunkReader 'x int ChunkPolicy
  | externalToUnvalidatedChunkReader 'x int ChunkPolicy
  | errorHandlingChunkReader "'x Buffer" 'e int ChunkPolicy
  | casValidatingChunkReader "('x, 'e) ChunkReader" Digest RepairStrategy
  | offsetChunkReader "('x, 'e) ChunkReader" int
  | normalizingChunkReader "('x, 'e) ChunkReader" ChunkPolicy
  | multiplexedChunkReader "('x, 'e) ChunkReader" int

datatype ('x, 'e) Reader =
    errorReader error
  | externalToReader 'x
  | errorHandlingReader "'x Buffer" 'e int
  | casValidatingReader "('x, 'e) Reader" Digest RepairStrategy
  | chunkReaderBackedReader "('x, 'e) ChunkReader"

text \<open>
  The methods of a buffer implemented elsewhere, as far as the code at hand calls them.
  \<open>ReadAt\<close> receives the slice \<open>p\<close> and returns it as written.
\<close>

record 'x ExternalBuffer =
  ext_GetSizeBytes :: "'x \<Rightarrow> int \<times> error option"
  ext_ReadAt :: "'x \<Rightarrow> byte list \<Rightarrow> int \<Rightarrow> byte list \<times> int \<times> error option"
  ext_ToByteSlice :: "'x \<Rightarrow> int \<Rightarrow> byte list \<times> error option"
  ext_ToActionResult :: "'x \<Rightarrow> int \<Rightarrow> ActionResult option \<times> error option"

text \<open>
  The \<open>ErrorHandler\<close> interface: \<open>OnError\<close> returns a replacement buffer and a translated
  error, \<open>Done\<close> releases the handler. A handler has state of its own (\<open>'h\<close>), which both
  methods may change.
\<close>

record ('h, 'b) ErrorHandler =
  OnError :: "'h \<Rightarrow> error \<Rightarrow> ('b \<times> error option) \<times> 'h"
  Done :: "'h \<Rightarrow> 'h"

text \<open>The calls a buffer makes on its collaborators, in the order it makes them.\<close>

datatype 'b call = OnErrorCall error | DoneCall | DiscardCall 'b

section \<open>The error buffer (\<open>error_buffer.go\<close>)\<close>

definition NewBufferFromError :: "error \<Rightarrow> 'x Buffer" where
  "NewBufferFromError err = errorBuffer err"

definition errorBuffer_GetSizeBytes :: "error \<Rightarrow> int \<times> error option" where
  "errorBuffer_GetSizeBytes err = (0, Some err)"

definition errorBuffer_IntoWriter :: "error \<Rightarrow> byte list \<Rightarrow> byte list \<times> error option" where
  "errorBuffer_IntoWriter err w = (w, Some err)"

definition errorBuffer_ReadAt :: "error \<Rightarrow> byte list \<Rightarrow> int \<Rightarrow> byte list \<times> int \<times> error option" where
  "errorBuffer_ReadAt err p off = (p, 0, Some err)"

definition errorBuffer_ToActionResult :: "error \<Rightarrow> int \<Rightarrow> ActionResult option \<times> error option" where
  "errorBuffer_ToActionResult err maximumSizeBytes = (None, Some err)"

definition errorBuffer_ToByteSlice :: "error \<Rightarrow> int \<Rightarrow> byte list \<times> error option" where
  "errorBuffer_ToByteSlice err maximumSizeBytes = ([], Some err)"

definition errorBuffer_ToChunkReader :: "error \<Rightarrow> int \<Rightarrow> ChunkPolicy \<Rightarrow> ('x, 'e) ChunkReader" where
  "errorBuffer_ToChunkReader err off chunkPolicy = errorChunkReader err"

definition errorBuffer_ToReader :: "error \<Rightarrow> ('x, 'e) Reader" where
  "errorBuffer_ToReader err = errorReader err"

definition errorBuffer_CloneCopy :: "error \<Rightarrow> int \<Rightarrow> 'x Buffer \<times> 'x Buffer" where
  "errorBuffer_CloneCopy err maximumSizeBytes = (errorBuffer err, errorBuffer err)"

definition errorBuffer_CloneStream :: "error \<Rightarrow> 'x Buffer \<times> 'x Buffer" where
  "errorBuffer_CloneStream err = (errorBuffer err, errorBuffer err)"

text \<open>
  \<open>Discard\<close> has an empty body: it makes no call on any collaborator and returns.
\<close>

definition errorBuffer_Discard :: "error \<Rightarrow> ('x Buffer) call list" where
  "errorBuffer_Discard err = []"

text \<open>
  \<open>applyErrorHandler\<close> returns the buffer, the flag \<open>shouldRetry\<close>, the handler's state and the
  calls made on the handler.
\<close>

definition errorBuffer_applyErrorHandler ::
  "error \<Rightarrow> ('h, 'x Buffer) ErrorHandler \<Rightarrow> 'h \<Rightarrow> ('x Buffer \<times> bool) \<times> 'h \<times> ('x Buffer) call list" where
  "errorBuffer_applyErrorHandler err errorHandler h =
     (case OnError errorHandler h err of
        ((newB, Some transformedErr), h') \<Rightarrow>
          ((errorBuffer transformedErr, False), Done errorHandler h', [OnErrorCall err, DoneCall])
      | ((newB, None), h') \<Rightarrow> ((newB, True), h', [OnErrorCall err]))"

definition errorBuffer_toUnvalidatedChunkReader :: "error \<Rightarrow> int \<Rightarrow> ChunkPolicy \<Rightarrow> ('x, 'e) ChunkReader" where
  "errorBuffer_toUnvalidatedChunkReader err off chunkPolicy = errorChunkReader err"

definition errorBuffer_toUnvalidatedReader :: "error \<Rightarrow> int \<Rightarrow> ('x, 'e) Reader" where
  "errorBuffer_toUnvalidatedReader err off = errorReader err"

text \<open>
  Modelled from the spec: \<open>newErrorChunkReader\<close> and \<open>newErrorReader\<close> are not among the files
  at hand. The spec lists the error reader as the variant that "always fails": every \<open>Read\<close>
  returns no data and the error the reader was built from.
\<close>

fun errorChunkReader_Read :: "('x, 'e) ChunkReader \<Rightarrow> (byte list \<times> error option) option" where
  "errorChunkReader_Read (errorChunkReader err) = Some ([], Some err)"
| "errorChunkReader_Read _ = None"

fun errorReader_Read :: "('x, 'e) Reader \<Rightarrow> byte list \<Rightarrow> (int \<times> error option) option" where
  "errorReader_Read (errorReader err) p = Some (0, Some err)"
| "errorReader_Read _ p = None"

section \<open>Interface dispatch on buffers\<close>

fun Buffer_GetSizeBytes :: "'x ExternalBuffer \<Rightarrow> 'x Buffer \<Rightarrow> int \<times> error option" where
  "Buffer_GetSizeBytes X (errorBuffer err) = errorBuffer_GetSizeBytes err"
| "Buffer_GetSizeBytes X (externalBuffer x) = ext_GetSizeBytes X x"

fun Buffer_ReadAt :: "'x ExternalBuffer \<Rightarrow> 'x Buffer \<Rightarrow> byte list \<Rightarrow> int \<Rightarrow> byte list \<times> int \<times> error option" where
  "Buffer_ReadAt X (errorBuffer err) p off = errorBuffer_ReadAt err p off"
| "Buffer_ReadAt X (externalBuffer x) p off = ext_ReadAt X x p off"

fun Buffer_ToByteSlice :: "'x ExternalBuffer \<Rightarrow> 'x Buffer \<Rightarrow> int \<Rightarrow> byte list \<times> error option" where
  "Buffer_ToByteSlice X (errorBuffer err) maximumSizeBytes = errorBuffer_ToByteSlice err maximumSizeBytes"
| "Buffer_ToByteSlice X (externalBuffer x) maximumSizeBytes = ext_ToByteSlice X x maximumSizeBytes"

fun Buffer_ToActionResult :: "'x ExternalBuffer \<Rightarrow> 'x Buffer \<Rightarrow> int \<Rightarrow> ActionResult option \<times> error option" where
  "Buffer_ToActionResult X (errorBuffer err) maximumSizeBytes = errorBuffer_ToActionResult err maximumSizeBytes"
| "Buffer_ToActionResult X (externalBuffer x) maximumSizeBytes = ext_ToActionResult X x maximumSizeBytes"

section \<open>The error-handling buffer (\<open>cas_error_handling_buffer.go\<close>)\<close>

record ('x, 'h) casErrorHandlingBuffer =
  base :: "'x Buffer"
  errorHandler :: "('h, 'x Buffer) ErrorHandler"
  digest :: Digest
  repairStrategy :: RepairStrategy

definition newCASErrorHandlingBuffer ::
  "'x Buffer \<Rightarrow> ('h, 'x Buffer) ErrorHandler \<Rightarrow> Digest \<Rightarrow> RepairStrategy \<Rightarrow> ('x, 'h) casErrorHandlingBuffer" where
  "newCASErrorHandlingBuffer b eh d rs =
     \<lparr>base = b, errorHandler = eh, digest = d, repairStrategy = rs\<rparr>"

text \<open>
  The loop of \<open>tryRepeatedly\<close>. The closure \<open>f\<close> assigns to variables of the calling method
  (\<open>n\<close>, \<open>data\<close>, \<open>actionResult\<close>; \<open>ReadAt\<close> also writes into \<open>p\<close>), so it takes their current
  values \<open>c\<close> and returns the new ones beside its error. The loop has no bound: a handler
  that keeps handing out failing buffers keeps it running, which is the value \<open>None\<close>.
\<close>

partial_function (option) tryRepeatedly_loop ::
  "('b \<Rightarrow> 'c \<Rightarrow> 'c \<times> error option) \<Rightarrow> ('h, 'b) ErrorHandler \<Rightarrow> 'b \<Rightarrow> 'c \<Rightarrow> 'h \<Rightarrow> 'b call list
     \<Rightarrow> ('c \<times> error option \<times> 'h \<times> 'b call list) option" where
  "tryRepeatedly_loop f eh b c h calls =
     (case f b c of
        (c', None) \<Rightarrow> Some (c', None, h, calls)
      | (c', Some originalErr) \<Rightarrow>
          if originalErr = EOF then Some (c', Some originalErr, h, calls)
          else (case OnError eh h originalErr of
                  ((b', Some translatedErr), h') \<Rightarrow>
                    Some (c', Some translatedErr, h', calls @ [OnErrorCall originalErr])
                | ((b', None), h') \<Rightarrow>
                    tryRepeatedly_loop f eh b' c' h' (calls @ [OnErrorCall originalErr])))"

text \<open>\<open>defer b.errorHandler.Done()\<close>: \<open>Done\<close> runs when the loop returns.\<close>

definition tryRepeatedly ::
  "('b \<Rightarrow> 'c \<Rightarrow> 'c \<times> error option) \<Rightarrow> ('h, 'b) ErrorHandler \<Rightarrow> 'b \<Rightarrow> 'c \<Rightarrow> 'h
     \<Rightarrow> ('c \<times> error option \<times> 'h \<times> 'b call list) option" where
  "tryRepeatedly f eh b c h =
     map_option (\<lambda>(c', err, h', calls). (c', err, Done eh h', calls @ [DoneCall]))
       (tryRepeatedly_loop f eh b c h [])"

section \<open>Properties of the error buffer\<close>

text \<open>
  C7. A buffer made by \<open>NewBufferFromError err\<close> is the error buffer holding \<open>err\<close>, and every
  operation on it answers with that stored error: \<open>GetSizeBytes\<close>, \<open>IntoWriter\<close>, \<open>ReadAt\<close>,
  \<open>ToActionResult\<close> and \<open>ToByteSlice\<close> return it directly (beside the zero value, with the
  writer and the slice \<open>p\<close> untouched); \<open>ToChunkReader\<close>, \<open>ToReader\<close> and their
  unvalidated variants return readers whose \<open>Read\<close> fails with it; \<open>CloneCopy\<close> and
  \<open>CloneStream\<close> return the same error buffer twice; \<open>Discard\<close> calls nothing and returns;
  and \<open>applyErrorHandler\<close> calls \<open>OnError err\<close> at once, yielding the replacement buffer
  with \<open>shouldRetry\<close> set, or, when the handler translates the error, an error buffer
  holding the translated error after one call of \<open>Done\<close>.
\<close>

theorem errorBuffer_every_operation_returns_stored_error:
  fixes err :: error and X :: "'x ExternalBuffer" and eh :: "('h, 'x Buffer) ErrorHandler"
  shows "(NewBufferFromError err :: 'x Buffer) = errorBuffer err
    \<and> Buffer_GetSizeBytes X (NewBufferFromError err) = (0, Some err)
    \<and> errorBuffer_IntoWriter err w = (w, Some err)
    \<and> Buffer_ReadAt X (NewBufferFromError err) p off = (p, 0, Some err)
    \<and> Buffer_ToActionResult X (NewBufferFromError err) m = (None, Some err)
    \<and> Buffer_ToByteSlice X (NewBufferFromError err) m = ([], Some err)
    \<and> errorChunkReader_Read (errorBuffer_ToChunkReader err off cp :: ('x, 'e) ChunkReader) = Some ([], Some err)
    \<and> errorChunkReader_Read (errorBuffer_toUnvalidatedChunkReader err off cp :: ('x, 'e) ChunkReader) = Some ([], Some err)
    \<and> errorReader_Read (errorBuffer_ToReader err :: ('x, 'e) Reader) p = Some (0, Some err)
    \<and> errorReader_Read (errorBuffer_toUnvalidatedReader err off :: ('x, 'e) Reader) p = Some (0, Some err)
    \<and> (errorBuffer_CloneCopy err m :: 'x Buffer \<times> 'x Buffer) = (NewBufferFromError err, NewBufferFromError err)
    \<and> (errorBuffer_CloneStream err :: 'x Buffer \<times> 'x Buffer) = (NewBufferFromError err, NewBufferFromError err)
    \<and> (errorBuffer_Discard err :: ('x Buffer) call list) = []
    \<and> (case OnError eh h err of
          ((newB, None), h') \<Rightarrow>
            errorBuffer_applyErrorHandler err eh h = ((newB, True), h', [OnErrorCall err])
        | ((newB, Some transformedErr), h') \<Rightarrow>
            errorBuffer_applyErrorHandler err eh h =
              ((NewBufferFromError transformedErr, False), Done eh h', [OnErrorCall err, DoneCall]))"
  by (simp add: NewBufferFromError_def errorBuffer_GetSizeBytes_def errorBuffer_IntoWriter_def
      errorBuffer_ReadAt_def errorBuffer_ToActionResult_def errorBuffer_ToByteSlice_def
      errorBuffer_ToChunkReader_def errorBuffer_toUnvalidatedChunkReader_def
      errorBuffer_ToReader_def errorBuffer_toUnvalidatedReader_def errorBuffer_CloneCopy_def
      errorBuffer_CloneStream_def errorBuffer_Discard_def errorBuffer_applyErrorHandler_def
      split: prod.splits option.splits)

section \<open>Whole-buffer operations of the error-handling buffer\<close>

text \<open>
  \<open>ReadAt\<close>, \<open>ToActionResult\<close> and \<open>ToByteSlice\<close> run the method of the same name on the base
  buffer through \<open>tryRepeatedly\<close>. The closure assigns the named results of the method
  (\<open>n\<close>, \<open>actionResult\<close>, \<open>data\<close>), which start at their zero values.
\<close>

definition casErrorHandlingBuffer_ReadAt ::
  "'x ExternalBuffer \<Rightarrow> ('x, 'h) casErrorHandlingBuffer \<Rightarrow> byte list \<Rightarrow> int \<Rightarrow> 'h
     \<Rightarrow> ((byte list \<times> int) \<times> error option \<times> 'h \<times> ('x Buffer) call list) option" where
  "casErrorHandlingBuffer_ReadAt X b p off h =
     tryRepeatedly
       (\<lambda>base (p, n). case Buffer_ReadAt X base p off of (p', n', originalErr) \<Rightarrow> ((p', n'), originalErr))
       (errorHandler b) (base b) (p, 0) h"

definition casErrorHandlingBuffer_ToActionResult ::
  "'x ExternalBuffer \<Rightarrow> ('x, 'h) casErrorHandlingBuffer \<Rightarrow> int \<Rightarrow> 'h
     \<Rightarrow> (ActionResult option \<times> error option \<times> 'h \<times> ('x Buffer) call list) option" where
  "casErrorHandlingBuffer_ToActionResult X b maximumSizeBytes h =
     tryRepeatedly (\<lambda>base actionResult. Buffer_ToActionResult X base maximumSizeBytes)
       (errorHandler b) (base b) None h"

definition casErrorHandlingBuffer_ToByteSlice ::
  "'x ExternalBuffer \<Rightarrow> ('x, 'h) casErrorHandlingBuffer \<Rightarrow> int \<Rightarrow> 'h
     \<Rightarrow> (byte list \<times> error option \<times> 'h \<times> ('x Buffer) call list) option" where
  "casErrorHandlingBuffer_ToByteSlice X b maximumSizeBytes h =
     tryRepeatedly (\<lambda>base data. Buffer_ToByteSlice X base maximumSizeBytes)
       (errorHandler b) (base b) [] h"

text \<open>The calls of a restarted operation come after the call of \<open>OnError\<close> that led to it.\<close>

definition after_OnError ::
  "error \<Rightarrow> 'r \<times> error option \<times> 'h \<times> 'b call list \<Rightarrow> 'r \<times> error option \<times> 'h \<times> 'b call list" where
  "after_OnError originalErr r = (case r of (c, err, h, calls) \<Rightarrow> (c, err, h, OnErrorCall originalErr # calls))"

subsection \<open>The call log of the loop\<close>

lemma tryRepeatedly_loop_grow:
  assumes "tryRepeatedly_loop f eh b c h calls = Some r"
  shows "\<forall>pre. tryRepeatedly_loop f eh b c h (pre @ calls) =
           Some (case r of (c', err, h', calls') \<Rightarrow> (c', err, h', pre @ calls'))"
proof (rule tryRepeatedly_loop.raw_induct
    [where P = "\<lambda>f eh b c h calls r. \<forall>pre. tryRepeatedly_loop f eh b c h (pre @ calls) =
           Some (case r of (c', err, h', calls') \<Rightarrow> (c', err, h', pre @ calls'))", OF _ assms],
    goal_cases)
  case (1 loop f eh b c h calls r)
  show ?case
  proof
    fix pre
    show "tryRepeatedly_loop f eh b c h (pre @ calls) =
           Some (case r of (c', err, h', calls') \<Rightarrow> (c', err, h', pre @ calls'))"
      using 1
      by (subst tryRepeatedly_loop.simps) (auto split: prod.splits option.splits if_splits)
  qed
qed

lemma tryRepeatedly_loop_shrink:
  assumes "tryRepeatedly_loop f eh b c h cs = Some r"
  shows "\<forall>pre calls. cs = pre @ calls \<longrightarrow>
           (\<exists>calls'. snd (snd (snd r)) = pre @ calls' \<and>
              tryRepeatedly_loop f eh b c h calls = Some (fst r, fst (snd r), fst (snd (snd r)), calls'))"
proof (rule tryRepeatedly_loop.raw_induct
    [where P = "\<lambda>f eh b c h cs r. \<forall>pre calls. cs = pre @ calls \<longrightarrow>
           (\<exists>calls'. snd (snd (snd r)) = pre @ calls' \<and>
              tryRepeatedly_loop f eh b c h calls = Some (fst r, fst (snd r), fst (snd (snd r)), calls'))",
     OF _ assms], goal_cases)
  case (1 loop f eh b c h cs r)
  note IH = 1(1) and step = 1(2)
  show ?case
  proof (intro allI impI)
    fix pre calls
    assume cs: "cs = pre @ calls"
    show "\<exists>calls'. snd (snd (snd r)) = pre @ calls' \<and>
              tryRepeatedly_loop f eh b c h calls = Some (fst r, fst (snd r), fst (snd (snd r)), calls')"
    proof (cases "f b c")
      case (Pair c' oe)
      show ?thesis
      proof (cases oe)
        case None
        with Pair step cs show ?thesis
          by (subst tryRepeatedly_loop.simps) auto
      next
        case (Some originalErr)
        show ?thesis
        proof (cases "originalErr = EOF")
          case True
          with Pair Some step cs show ?thesis
            by (subst tryRepeatedly_loop.simps) auto
        next
          case False
          obtain b' te h' where oe: "OnError eh h originalErr = ((b', te), h')"
            by (metis prod.exhaust)
          show ?thesis
          proof (cases te)
            case None
            with Pair Some False oe step
            have "loop f eh b' c' h' (cs @ [OnErrorCall originalErr]) = Some r" by simp
            from IH[OF this, rule_format, of pre "calls @ [OnErrorCall originalErr]"] cs
            obtain calls' where "snd (snd (snd r)) = pre @ calls'"
              and "tryRepeatedly_loop f eh b' c' h' (calls @ [OnErrorCall originalErr]) =
                     Some (fst r, fst (snd r), fst (snd (snd r)), calls')"
              by auto
            with Pair Some False oe None show ?thesis
              by (subst tryRepeatedly_loop.simps) auto
          next
            case (Some translatedErr)
            with Pair \<open>oe = Some originalErr\<close> False oe step cs show ?thesis
              by (subst tryRepeatedly_loop.simps) auto
          qed
        qed
      qed
    qed
  qed
qed

lemma tryRepeatedly_loop_prefix:
  "tryRepeatedly_loop f eh b c h (pre @ calls) =
     map_option (\<lambda>(c', err, h', calls'). (c', err, h', pre @ calls')) (tryRepeatedly_loop f eh b c h calls)"
proof (cases "tryRepeatedly_loop f eh b c h calls")
  case None
  show ?thesis
  proof (cases "tryRepeatedly_loop f eh b c h (pre @ calls)")
    case (Some r)
    from tryRepeatedly_loop_shrink[OF Some, rule_format, of pre calls] None
    show ?thesis by auto
  next
    case N2: None
    with None show ?thesis by simp
  qed
next
  case (Some r)
  from tryRepeatedly_loop_grow[OF Some, rule_format, of pre] Some
  show ?thesis by (auto split: prod.splits)
qed


lemma tryRepeatedly_loop_calls:
  assumes "tryRepeatedly_loop f eh b c h calls = Some r"
  shows "\<exists>es. snd (snd (snd r)) = calls @ map OnErrorCall es"
proof (rule tryRepeatedly_loop.raw_induct
    [where P = "\<lambda>f eh b c h calls r. \<exists>es. snd (snd (snd r)) = calls @ map OnErrorCall es",
     OF _ assms], goal_cases)
  case (1 loop f eh b c h calls r)
  note IH = 1(1) and step = 1(2)
  show ?case
  proof (cases "f b c")
    case (Pair c' oe)
    show ?thesis
    proof (cases oe)
      case None
      with Pair step have "snd (snd (snd r)) = calls @ map OnErrorCall []" by auto
      then show ?thesis by blast
    next
      case (Some originalErr)
      show ?thesis
      proof (cases "originalErr = EOF")
        case True
        with Pair Some step have "snd (snd (snd r)) = calls @ map OnErrorCall []" by auto
        then show ?thesis by blast
      next
        case False
        obtain b' te h' where oe: "OnError eh h originalErr = ((b', te), h')"
          by (metis prod.exhaust)
        show ?thesis
        proof (cases te)
          case None
          with Pair Some False oe step
          have "loop f eh b' c' h' (calls @ [OnErrorCall originalErr]) = Some r" by simp
          from IH[OF this] obtain es
            where "snd (snd (snd r)) = (calls @ [OnErrorCall originalErr]) @ map OnErrorCall es" ..
          then have "snd (snd (snd r)) = calls @ map OnErrorCall (originalErr # es)" by simp
          then show ?thesis by blast
        next
          case (Some translatedErr)
          with Pair \<open>oe = Some originalErr\<close> False oe step
          have "snd (snd (snd r)) = calls @ map OnErrorCall [originalErr]" by auto
          then show ?thesis by blast
        qed
      qed
    qed
  qed
qed

subsection \<open>One attempt of \<open>tryRepeatedly\<close>\<close>

text \<open>
  What an operation does once its attempt on the current base buffer has returned \<open>c'\<close> and
  \<open>originalErr\<close>: with no error, or with \<open>io.EOF\<close>, it returns them after \<open>Done\<close>; otherwise
  it asks \<open>OnError\<close>, and either carries on as \<open>restart\<close> does on the replacement buffer or
  returns the translated error after \<open>Done\<close>.
\<close>

definition tryRepeatedly_outcome ::
  "('h, 'b) ErrorHandler \<Rightarrow> 'h \<Rightarrow> 'c \<Rightarrow> error option
     \<Rightarrow> ('b \<Rightarrow> 'h \<Rightarrow> ('c \<times> error option \<times> 'h \<times> 'b call list) option)
     \<Rightarrow> ('c \<times> error option \<times> 'h \<times> 'b call list) option" where
  "tryRepeatedly_outcome eh h c' originalErr restart =
     (case originalErr of
        None \<Rightarrow> Some (c', None, Done eh h, [DoneCall])
      | Some e \<Rightarrow>
          if e = EOF then Some (c', Some EOF, Done eh h, [DoneCall])
          else (case OnError eh h e of
                  ((replacement, None), h') \<Rightarrow> map_option (after_OnError e) (restart replacement h')
                | ((replacement, Some translatedErr), h') \<Rightarrow>
                    Some (c', Some translatedErr, Done eh h', [OnErrorCall e, DoneCall])))"

text \<open>\<open>Done\<close> is among the calls exactly once, and it is the last of them.\<close>

definition Done_exactly_once :: "'b call list \<Rightarrow> bool" where
  "Done_exactly_once calls =
     (calls \<noteq> [] \<and> last calls = DoneCall \<and> count_list calls DoneCall = 1)"

lemma tryRepeatedly_unfold:
  "tryRepeatedly f eh b c h =
     (case f b c of (c', originalErr) \<Rightarrow>
        tryRepeatedly_outcome eh h c' originalErr (\<lambda>replacement h'. tryRepeatedly f eh replacement c' h'))"
proof (cases "f b c")
  case (Pair c' oe)
  show ?thesis
  proof (cases oe)
    case None
    with Pair show ?thesis
      by (simp add: tryRepeatedly_def tryRepeatedly_outcome_def tryRepeatedly_loop.simps[of f eh b c])
  next
    case (Some originalErr)
    show ?thesis
    proof (cases "originalErr = EOF")
      case True
      with Pair Some show ?thesis
        by (simp add: tryRepeatedly_def tryRepeatedly_outcome_def tryRepeatedly_loop.simps[of f eh b c])
    next
      case False
      obtain b' te h' where oe: "OnError eh h originalErr = ((b', te), h')"
        by (metis prod.exhaust)
      show ?thesis
      proof (cases te)
        case None
        have "tryRepeatedly_loop f eh b c h [] =
                tryRepeatedly_loop f eh b' c' h' ([OnErrorCall originalErr] @ [])"
          using Pair Some False oe None
          by (simp add: tryRepeatedly_loop.simps[of f eh b c])
        also have "\<dots> = map_option (\<lambda>(c', err, h', calls'). (c', err, h', [OnErrorCall originalErr] @ calls'))
                      (tryRepeatedly_loop f eh b' c' h' [])"
          by (rule tryRepeatedly_loop_prefix)
        finally show ?thesis
          using Pair Some False oe None
          by (cases "tryRepeatedly_loop f eh b' c' h' []")
            (auto simp: tryRepeatedly_def tryRepeatedly_outcome_def after_OnError_def)
      next
        case (Some translatedErr)
        with Pair \<open>oe = Some originalErr\<close> False oe show ?thesis
          by (simp add: tryRepeatedly_def tryRepeatedly_outcome_def tryRepeatedly_loop.simps[of f eh b c])
      qed
    qed
  qed
qed

lemma count_list_map_OnErrorCall: "count_list (map OnErrorCall es) DoneCall = 0"
  by (induction es) auto

lemma count_list_append: "count_list (xs @ ys) a = count_list xs a + count_list ys a"
  by (induction xs) auto

lemma tryRepeatedly_Done_exactly_once:
  assumes "tryRepeatedly f eh b c h = Some r"
  shows "Done_exactly_once (snd (snd (snd r)))"
proof -
  from assms obtain r' where loop: "tryRepeatedly_loop f eh b c h [] = Some r'"
    and r: "r = (case r' of (c', err, h', calls) \<Rightarrow> (c', err, Done eh h', calls @ [DoneCall]))"
    by (auto simp: tryRepeatedly_def)
  from tryRepeatedly_loop_calls[OF loop] obtain es where "snd (snd (snd r')) = map OnErrorCall es"
    by auto
  with r have "snd (snd (snd r)) = map OnErrorCall es @ [DoneCall]"
    by (auto split: prod.splits)
  then show ?thesis
    by (simp add: Done_exactly_once_def count_list_append count_list_map_OnErrorCall)
qed

lemma tryRepeatedly_cong_attempt:
  assumes "f b c1 = f b c2"
  shows "tryRepeatedly f eh b c1 h = tryRepeatedly f eh b c2 h"
  by (simp add: tryRepeatedly_unfold[of f eh b c1] tryRepeatedly_unfold[of f eh b c2] assms)


text \<open>
  C4. \<open>ReadAt\<close>, \<open>ToByteSlice\<close> and \<open>ToActionResult\<close> of an error-handling buffer each make one
  attempt on the current base buffer. An attempt that fails (an error other than \<open>io.EOF\<close>,
  which the loop returns like \<open>nil\<close>) is passed to \<open>OnError\<close>; if that returns a replacement
  buffer, the whole operation is run again on the replacement, with the handler as
  \<open>OnError\<close> left it; if it returns a translated error, that error is returned. Whenever the
  operation returns, \<open>Done\<close> has been called exactly once, as the last call.
\<close>

theorem casErrorHandlingBuffer_whole_operations_restart:
  fixes X :: "'x ExternalBuffer" and b :: "('x, 'h) casErrorHandlingBuffer"
  shows "casErrorHandlingBuffer_ReadAt X b p off h =
      (case Buffer_ReadAt X (base b) p off of (p', n, originalErr) \<Rightarrow>
         tryRepeatedly_outcome (errorHandler b) h (p', n) originalErr
           (\<lambda>replacement h'. casErrorHandlingBuffer_ReadAt X (b\<lparr>base := replacement\<rparr>) p' off h'))
    \<and> casErrorHandlingBuffer_ToByteSlice X b m h =
      (case Buffer_ToByteSlice X (base b) m of (data, originalErr) \<Rightarrow>
         tryRepeatedly_outcome (errorHandler b) h data originalErr
           (\<lambda>replacement h'. casErrorHandlingBuffer_ToByteSlice X (b\<lparr>base := replacement\<rparr>) m h'))
    \<and> casErrorHandlingBuffer_ToActionResult X b m h =
      (case Buffer_ToActionResult X (base b) m of (actionResult, originalErr) \<Rightarrow>
         tryRepeatedly_outcome (errorHandler b) h actionResult originalErr
           (\<lambda>replacement h'. casErrorHandlingBuffer_ToActionResult X (b\<lparr>base := replacement\<rparr>) m h'))
    \<and> (\<forall>r. casErrorHandlingBuffer_ReadAt X b p off h = Some r \<longrightarrow> Done_exactly_once (snd (snd (snd r))))
    \<and> (\<forall>r. casErrorHandlingBuffer_ToByteSlice X b m h = Some r \<longrightarrow> Done_exactly_once (snd (snd (snd r))))
    \<and> (\<forall>r. casErrorHandlingBuffer_ToActionResult X b m h = Some r \<longrightarrow> Done_exactly_once (snd (snd (snd r))))"
proof (intro conjI)
  let ?f = "\<lambda>base (p, n :: int). case Buffer_ReadAt X base p off of (p', n', originalErr) \<Rightarrow> ((p', n'), originalErr)"
  obtain p' n oe where at: "Buffer_ReadAt X (base b) p off = (p', n, oe)"
    by (metis prod.exhaust)
  have "(\<lambda>replacement h'. tryRepeatedly ?f (errorHandler b) replacement (p', n) h') =
        (\<lambda>replacement h'. tryRepeatedly ?f (errorHandler b) replacement (p', 0) h')"
    by (intro ext tryRepeatedly_cong_attempt) simp
  with at show "casErrorHandlingBuffer_ReadAt X b p off h =
      (case Buffer_ReadAt X (base b) p off of (p', n, originalErr) \<Rightarrow>
         tryRepeatedly_outcome (errorHandler b) h (p', n) originalErr
           (\<lambda>replacement h'. casErrorHandlingBuffer_ReadAt X (b\<lparr>base := replacement\<rparr>) p' off h'))"
    unfolding casErrorHandlingBuffer_ReadAt_def
    by (subst tryRepeatedly_unfold) simp
  obtain data oe2 where at2: "Buffer_ToByteSlice X (base b) m = (data, oe2)"
    by (metis prod.exhaust)
  have "(\<lambda>replacement h'. tryRepeatedly (\<lambda>base data. Buffer_ToByteSlice X base m) (errorHandler b) replacement data h') =
        (\<lambda>replacement h'. tryRepeatedly (\<lambda>base data. Buffer_ToByteSlice X base m) (errorHandler b) replacement [] h')"
    by (intro ext tryRepeatedly_cong_attempt) simp
  with at2 show "casErrorHandlingBuffer_ToByteSlice X b m h =
      (case Buffer_ToByteSlice X (base b) m of (data, originalErr) \<Rightarrow>
         tryRepeatedly_outcome (errorHandler b) h data originalErr
           (\<lambda>replacement h'. casErrorHandlingBuffer_ToByteSlice X (b\<lparr>base := replacement\<rparr>) m h'))"
    unfolding casErrorHandlingBuffer_ToByteSlice_def
    by (subst tryRepeatedly_unfold) simp
  obtain ar oe3 where at3: "Buffer_ToActionResult X (base b) m = (ar, oe3)"
    by (metis prod.exhaust)
  have "(\<lambda>replacement h'. tryRepeatedly (\<lambda>base actionResult. Buffer_ToActionResult X base m) (errorHandler b) replacement ar h') =
        (\<lambda>replacement h'. tryRepeatedly (\<lambda>base actionResult. Buffer_ToActionResult X base m) (errorHandler b) replacement None h')"
    by (intro ext tryRepeatedly_cong_attempt) simp
  with at3 show "casErrorHandlingBuffer_ToActionResult X b m h =
      (case Buffer_ToActionResult X (base b) m of (actionResult, originalErr) \<Rightarrow>
         tryRepeatedly_outcome (errorHandler b) h actionResult originalErr
           (\<lambda>replacement h'. casErrorHandlingBuffer_ToActionResult X (b\<lparr>base := replacement\<rparr>) m h'))"
    unfolding casErrorHandlingBuffer_ToActionResult_def
    by (subst tryRepeatedly_unfold) simp
  show "\<forall>r. casErrorHandlingBuffer_ReadAt X b p off h = Some r \<longrightarrow> Done_exactly_once (snd (snd (snd r)))"
    unfolding casErrorHandlingBuffer_ReadAt_def by (blast intro: tryRepeatedly_Done_exactly_once)
  show "\<forall>r. casErrorHandlingBuffer_ToByteSlice X b m h = Some r \<longrightarrow> Done_exactly_once (snd (snd (snd r)))"
    unfolding casErrorHandlingBuffer_ToByteSlice_def by (blast intro: tryRepeatedly_Done_exactly_once)
  show "\<forall>r. casErrorHandlingBuffer_ToActionResult X b m h = Some r \<longrightarrow> Done_exactly_once (snd (snd (snd r)))"
    unfolding casErrorHandlingBuffer_ToActionResult_def by (blast intro: tryRepeatedly_Done_exactly_once)
qed


subsection \<open>A flaky source and a handler that retries once\<close>

text \<open>
  Buffer \<open>0\<close> fails every read with a transport error, buffer \<open>1\<close> holds the two bytes
  \<open>hi\<close>. The handler hands out buffer \<open>1\<close> on the first error and gives up on the second;
  its state counts the calls of \<open>OnError\<close>, and \<open>Done\<close> adds ten.
\<close>

definition example_buffers :: "nat ExternalBuffer" where
  "example_buffers =
     \<lparr>ext_GetSizeBytes = (\<lambda>x. (2, None)),
      ext_ReadAt = (\<lambda>x p off.
         if x = 0 then (p, 0, Some (External 14))
         else if off < 2 then ([104, 105], 2, None) else (p, 0, Some EOF)),
      ext_ToByteSlice = (\<lambda>x m. if x = 0 then ([], Some (External 14)) else ([104, 105], None)),
      ext_ToActionResult = (\<lambda>x m. (None, Some (External 14)))\<rparr>"

definition example_handler :: "(nat, nat Buffer) ErrorHandler" where
  "example_handler =
     \<lparr>OnError = (\<lambda>h err. if h = 0 then ((externalBuffer 1, None), Suc h)
                          else ((errorBuffer err, Some (New ''giving up'')), Suc h)),
      Done = (\<lambda>h. h + 10)\<rparr>"

definition example_digest :: Digest where
  "example_digest = \<lparr>GetInstance = ''main'', GetHashString = ''abc123'', GetSizeBytes = 11\<rparr>"

theorem casErrorHandlingBuffer_whole_operations_restart_witness:
  "casErrorHandlingBuffer_ReadAt example_buffers
       (newCASErrorHandlingBuffer (externalBuffer 0) example_handler example_digest Irreparable) [0, 0] 0 0
     = Some (([104, 105], 2), None, 11, [OnErrorCall (External 14), DoneCall])
   \<and> Done_exactly_once [OnErrorCall (External 14) :: nat Buffer call, DoneCall]
   \<and> casErrorHandlingBuffer_ToActionResult example_buffers
       (newCASErrorHandlingBuffer (externalBuffer 0) example_handler example_digest Irreparable) 100 1
     = Some (None, Some (New ''giving up''), 12, [OnErrorCall (External 14), DoneCall])"
  using casErrorHandlingBuffer_whole_operations_restart
      [of example_buffers "newCASErrorHandlingBuffer (externalBuffer 0) example_handler example_digest Irreparable"
          "[0, 0]" 0 0 100]
    casErrorHandlingBuffer_whole_operations_restart
      [of example_buffers "newCASErrorHandlingBuffer (externalBuffer 1) example_handler example_digest Irreparable"
          "[0, 0]" 0 1 100]
    casErrorHandlingBuffer_whole_operations_restart
      [of example_buffers "newCASErrorHandlingBuffer (externalBuffer 0) example_handler example_digest Irreparable"
          "[0, 0]" 0 1 100]
  by (simp add: newCASErrorHandlingBuffer_def example_buffers_def example_handler_def
      tryRepeatedly_outcome_def after_OnError_def Done_exactly_once_def)

text \<open>
  C9. When the attempted operation returns \<open>io.EOF\<close>, \<open>tryRepeatedly\<close> returns it as it is:
  the error is \<open>io.EOF\<close> itself, \<open>OnError\<close> is not called (the only call is the deferred
  \<open>Done\<close>), and nothing is retried. So a \<open>ReadAt\<close> of the base buffer that ends with
  \<open>(n, io.EOF)\<close> is the result of \<open>ReadAt\<close> on the error-handling buffer.
\<close>

theorem tryRepeatedly_returns_EOF_directly:
  fixes X :: "'x ExternalBuffer" and bf :: "('x, 'h) casErrorHandlingBuffer"
  shows "(f b c = (c', Some EOF) \<longrightarrow>
            tryRepeatedly f eh b c h = Some (c', Some EOF, Done eh h, [DoneCall]))
       \<and> (Buffer_ReadAt X (base bf) p off = (p', n, Some EOF) \<longrightarrow>
            casErrorHandlingBuffer_ReadAt X bf p off hf =
              Some ((p', n), Some EOF, Done (errorHandler bf) hf, [DoneCall]))"
proof (intro conjI impI)
  assume "f b c = (c', Some EOF)"
  then show "tryRepeatedly f eh b c h = Some (c', Some EOF, Done eh h, [DoneCall])"
    by (subst tryRepeatedly_unfold) (simp add: tryRepeatedly_outcome_def)
next
  assume "Buffer_ReadAt X (base bf) p off = (p', n, Some EOF)"
  then show "casErrorHandlingBuffer_ReadAt X bf p off hf =
              Some ((p', n), Some EOF, Done (errorHandler bf) hf, [DoneCall])"
    unfolding casErrorHandlingBuffer_ReadAt_def
    by (subst tryRepeatedly_unfold) (simp add: tryRepeatedly_outcome_def)
qed

theorem tryRepeatedly_returns_EOF_directly_witness:
  "Buffer_ReadAt example_buffers (externalBuffer 1) [0, 0] 2 = ([0, 0], 0, Some EOF)
   \<and> casErrorHandlingBuffer_ReadAt example_buffers
       (newCASErrorHandlingBuffer (externalBuffer 1) example_handler example_digest Irreparable) [0, 0] 2 0
     = Some (([0, 0], 0), Some EOF, 10, [DoneCall])"
  using tryRepeatedly_returns_EOF_directly
      [of "\<lambda>base (p, n). case Buffer_ReadAt example_buffers base p 2 of (p', n', originalErr) \<Rightarrow> ((p', n'), originalErr)"
          "externalBuffer 1" "([0, 0], 0)" "([0, 0], 0)" example_handler 0 example_buffers
          "newCASErrorHandlingBuffer (externalBuffer 1) example_handler example_digest Irreparable"
          "[0, 0]" 2 "[0, 0]" 0 0]
  by (simp add: newCASErrorHandlingBuffer_def example_buffers_def example_handler_def)

section \<open>Streaming reads of the error-handling buffer\<close>

definition casErrorHandlingBuffer_toUnvalidatedChunkReader ::
  "('x, 'h) casErrorHandlingBuffer \<Rightarrow> int \<Rightarrow> ChunkPolicy
     \<Rightarrow> ('x, ('h, 'x Buffer) ErrorHandler) ChunkReader" where
  "casErrorHandlingBuffer_toUnvalidatedChunkReader b off chunkPolicy =
     errorHandlingChunkReader (base b) (errorHandler b) off chunkPolicy"

definition casErrorHandlingBuffer_toValidatedChunkReader ::
  "('x, 'h) casErrorHandlingBuffer \<Rightarrow> ChunkPolicy \<Rightarrow> ('x, ('h, 'x Buffer) ErrorHandler) ChunkReader" where
  "casErrorHandlingBuffer_toValidatedChunkReader b chunkPolicy =
     casValidatingChunkReader (casErrorHandlingBuffer_toUnvalidatedChunkReader b 0 chunkPolicy)
       (digest b) (repairStrategy b)"

text \<open>
  \<open>intoWriterViaChunkReader\<close> is a helper outside the files at hand; \<open>IntoWriter\<close> hands it the
  reader and the writer.
\<close>

definition casErrorHandlingBuffer_IntoWriter ::
  "(('x, ('h, 'x Buffer) ErrorHandler) ChunkReader \<Rightarrow> 'w \<Rightarrow> 'r) \<Rightarrow> ('x, 'h) casErrorHandlingBuffer \<Rightarrow> 'w \<Rightarrow> 'r" where
  "casErrorHandlingBuffer_IntoWriter intoWriterViaChunkReader b w =
     intoWriterViaChunkReader (casErrorHandlingBuffer_toValidatedChunkReader b chunkSizeDontCare) w"

definition casErrorHandlingBuffer_Discard ::
  "('x, 'h) casErrorHandlingBuffer \<Rightarrow> 'h \<Rightarrow> 'h \<times> ('x Buffer) call list" where
  "casErrorHandlingBuffer_Discard b h = (Done (errorHandler b) h, [DoneCall, DiscardCall (base b)])"

text \<open>
  \<open>validateReaderOffset\<close> is a helper outside the files at hand as well; it is a parameter of
  \<open>ToChunkReader\<close>, applied to the size of the digest and the requested offset.
\<close>

definition casErrorHandlingBuffer_ToChunkReader ::
  "(int \<Rightarrow> int \<Rightarrow> error option) \<Rightarrow> ('x, 'h) casErrorHandlingBuffer \<Rightarrow> int \<Rightarrow> ChunkPolicy \<Rightarrow> 'h
     \<Rightarrow> ('x, ('h, 'x Buffer) ErrorHandler) ChunkReader \<times> 'h \<times> ('x Buffer) call list" where
  "casErrorHandlingBuffer_ToChunkReader validateReaderOffset b off chunkPolicy h =
     (case validateReaderOffset (GetSizeBytes (digest b)) off of
        Some err \<Rightarrow>
          (case casErrorHandlingBuffer_Discard b h of (h', calls) \<Rightarrow> (errorChunkReader err, h', calls))
      | None \<Rightarrow>
          (offsetChunkReader (casErrorHandlingBuffer_toValidatedChunkReader b chunkPolicy) off, h, []))"

definition casErrorHandlingBuffer_toUnvalidatedReader ::
  "('x, 'h) casErrorHandlingBuffer \<Rightarrow> int \<Rightarrow> ('x, ('h, 'x Buffer) ErrorHandler) Reader" where
  "casErrorHandlingBuffer_toUnvalidatedReader b off = errorHandlingReader (base b) (errorHandler b) off"

definition casErrorHandlingBuffer_ToReader ::
  "('x, 'h) casErrorHandlingBuffer \<Rightarrow> ('x, ('h, 'x Buffer) ErrorHandler) Reader" where
  "casErrorHandlingBuffer_ToReader b =
     casValidatingReader (casErrorHandlingBuffer_toUnvalidatedReader b 0) (digest b) (repairStrategy b)"

text \<open>
  Modelled from the spec: \<open>validateReaderOffset\<close> is not among the files at hand. The spec says
  of \<open>ToChunkReader\<close> that it "fails if offset exceeds size"; the error it fails with is not
  said and is the first argument here.
\<close>

definition validateReaderOffset :: "error \<Rightarrow> int \<Rightarrow> int \<Rightarrow> error option" where
  "validateReaderOffset err sizeBytes requested = (if requested > sizeBytes then Some err else None)"

text \<open>
  The shape the spec asks of a chain of chunk readers: it has a checksum-validating reader,
  and the upstream of that reader is the retrying reader over the given base buffer and
  handler. Readers that only reshape chunks (offset, normalizing, multiplexing) may sit above
  the validating one.
\<close>

fun validates_outside_retry :: "('x, 'e) ChunkReader \<Rightarrow> 'x Buffer \<Rightarrow> 'e \<Rightarrow> bool" where
  "validates_outside_retry (casValidatingChunkReader r d rs) b eh =
     (case r of errorHandlingChunkReader b' eh' off cp \<Rightarrow> b' = b \<and> eh' = eh | _ \<Rightarrow> False)"
| "validates_outside_retry (offsetChunkReader r off) b eh = validates_outside_retry r b eh"
| "validates_outside_retry (normalizingChunkReader r cp) b eh = validates_outside_retry r b eh"
| "validates_outside_retry (multiplexedChunkReader r k) b eh = validates_outside_retry r b eh"
| "validates_outside_retry _ b eh = False"

fun Reader_validates_outside_retry :: "('x, 'e) Reader \<Rightarrow> 'x Buffer \<Rightarrow> 'e \<Rightarrow> bool" where
  "Reader_validates_outside_retry (casValidatingReader r d rs) b eh =
     (case r of errorHandlingReader b' eh' off \<Rightarrow> b' = b \<and> eh' = eh | _ \<Rightarrow> False)"
| "Reader_validates_outside_retry (chunkReaderBackedReader r) b eh = validates_outside_retry r b eh"
| "Reader_validates_outside_retry _ b eh = False"

subsection \<open>What the readers of a chain deliver\<close>

text \<open>
  Modelled from the spec: the unvalidated chunk reader of a buffer implemented elsewhere is
  not among the sources. The spec has a chunk reader as a forward-only sequence of chunks over
  one blob; read to its end from offset \<open>off\<close> it yields finitely many chunks and then an
  error, \<open>io.EOF\<close> at the end of the blob or the failure of the transport. The error buffer's
  reader "always fails".
\<close>

type_synonym 'x source = "'x \<Rightarrow> int \<Rightarrow> byte list list \<times> error"

fun Buffer_unvalidated_chunks :: "'x source \<Rightarrow> 'x Buffer \<Rightarrow> int \<Rightarrow> byte list list \<times> error" where
  "Buffer_unvalidated_chunks src (errorBuffer err) off = ([], err)"
| "Buffer_unvalidated_chunks src (externalBuffer x) off = src x off"

text \<open>
  Modelled from the spec: \<open>newErrorHandlingChunkReader\<close> is not among the sources. The spec:
  "a retrying reader resumes from the last successfully delivered offset by requesting a
  replacement buffer and reopening its reader at that offset". Read to its end, it delivers
  the chunks of the current buffer; at \<open>io.EOF\<close> it ends; at any other error it asks
  \<open>OnError\<close> and either ends with the translated error or goes on with the replacement
  buffer at the offset reached. The result is the chunks delivered, the final error, the
  state of the handler and the calls made on it; a handler that keeps handing out failing
  buffers gives \<open>None\<close>.
\<close>

partial_function (option) errorHandlingChunkReader_drain ::
  "'x source \<Rightarrow> ('h, 'x Buffer) ErrorHandler \<Rightarrow> 'x Buffer \<Rightarrow> int \<Rightarrow> 'h
     \<Rightarrow> (byte list list \<times> error \<times> 'h \<times> ('x Buffer) call list) option" where
  "errorHandlingChunkReader_drain src eh b off h =
     (case Buffer_unvalidated_chunks src b off of
        (chunks, err) \<Rightarrow>
          if err = EOF then Some (chunks, EOF, h, [])
          else (case OnError eh h err of
                  ((b', Some translatedErr), h') \<Rightarrow> Some (chunks, translatedErr, h', [OnErrorCall err])
                | ((b', None), h') \<Rightarrow>
                    Option.bind
                      (errorHandlingChunkReader_drain src eh b' (off + int (length (concat chunks))) h')
                      (\<lambda>(chunks', err', h'', calls).
                         Some (chunks @ chunks', err', h'', OnErrorCall err # calls))))"

text \<open>
  Modelled from the spec: \<open>newCASValidatingChunkReader\<close> is not among the sources. The spec has
  the digest as the "integrity checksum source" and the validating reader as checking the
  "digest ... against actual bytes": it passes the chunks of its upstream on and, where the
  upstream ends with \<open>io.EOF\<close>, ends with \<open>io.EOF\<close> if size and hash of the bytes are those of
  the digest and with the checksum error otherwise. The hash function and the checksum error
  are parameters.
\<close>

definition casValidatingChunkReader_end ::
  "(byte list \<Rightarrow> string) \<Rightarrow> error \<Rightarrow> Digest \<Rightarrow> byte list \<Rightarrow> error \<Rightarrow> error" where
  "casValidatingChunkReader_end hash mismatch d bytes err =
     (if err = EOF
      then (if int (length bytes) = GetSizeBytes d \<and> hash bytes = GetHashString d
            then EOF else mismatch)
      else err)"

text \<open>
  Modelled from the spec: \<open>newOffsetChunkReader\<close> is not among the sources; the spec has it as
  "skipping to offset": the first \<open>off\<close> bytes of the upstream are not delivered.
\<close>

fun skip_bytes :: "nat \<Rightarrow> byte list list \<Rightarrow> byte list list" where
  "skip_bytes n [] = []"
| "skip_bytes n (chunk # chunks) =
     (if length chunk \<le> n then skip_bytes (n - length chunk) chunks
      else drop n chunk # chunks)"

text \<open>
  A chain read to its end. Readers the spec does not describe to this detail (normalizing,
  multiplexing, those of buffers implemented elsewhere) have no reading here.
\<close>

fun ChunkReader_drain ::
  "'x source \<Rightarrow> (byte list \<Rightarrow> string) \<Rightarrow> error \<Rightarrow> ('x, ('h, 'x Buffer) ErrorHandler) ChunkReader \<Rightarrow> 'h
     \<Rightarrow> (byte list list \<times> error \<times> 'h \<times> ('x Buffer) call list) option" where
  "ChunkReader_drain src hash mismatch (errorChunkReader err) h = Some ([], err, h, [])"
| "ChunkReader_drain src hash mismatch (errorHandlingChunkReader b eh off chunkPolicy) h =
     errorHandlingChunkReader_drain src eh b off h"
| "ChunkReader_drain src hash mismatch (casValidatingChunkReader r d rs) h =
     map_option
       (\<lambda>(chunks, err, h', calls).
          (chunks, casValidatingChunkReader_end hash mismatch d (concat chunks) err, h', calls))
       (ChunkReader_drain src hash mismatch r h)"
| "ChunkReader_drain src hash mismatch (offsetChunkReader r off) h =
     map_option (\<lambda>(chunks, err, h', calls). (skip_bytes (nat off) chunks, err, h', calls))
       (ChunkReader_drain src hash mismatch r h)"
| "ChunkReader_drain src hash mismatch _ h = None"

text \<open>
  Modelled from the spec: \<open>newErrorHandlingReader\<close> and \<open>newCASValidatingReader\<close> are not among
  the sources. They are the readers above over bytes instead of chunks.
\<close>

fun Reader_drain ::
  "'x source \<Rightarrow> (byte list \<Rightarrow> string) \<Rightarrow> error \<Rightarrow> ('x, ('h, 'x Buffer) ErrorHandler) Reader \<Rightarrow> 'h
     \<Rightarrow> (byte list \<times> error \<times> 'h \<times> ('x Buffer) call list) option" where
  "Reader_drain src hash mismatch (errorReader err) h = Some ([], err, h, [])"
| "Reader_drain src hash mismatch (errorHandlingReader b eh off) h =
     map_option (\<lambda>(chunks, err, h', calls). (concat chunks, err, h', calls))
       (errorHandlingChunkReader_drain src eh b off h)"
| "Reader_drain src hash mismatch (casValidatingReader r d rs) h =
     map_option
       (\<lambda>(bytes, err, h', calls). (bytes, casValidatingChunkReader_end hash mismatch d bytes err, h', calls))
       (Reader_drain src hash mismatch r h)"
| "Reader_drain src hash mismatch (chunkReaderBackedReader r) h =
     map_option (\<lambda>(chunks, err, h', calls). (concat chunks, err, h', calls))
       (ChunkReader_drain src hash mismatch r h)"
| "Reader_drain src hash mismatch _ h = None"

text \<open>
  The calls a stream read makes on the error handler are all \<open>OnError\<close> with an error that
  the unvalidated reader of some buffer ended with, other than \<open>io.EOF\<close>: failures of the
  readers below, none made by the validating reader.
\<close>

definition only_failures_below :: "'x source \<Rightarrow> ('x Buffer) call list \<Rightarrow> bool" where
  "only_failures_below src calls =
     (\<forall>c \<in> set calls. \<exists>err b off.
        c = OnErrorCall err \<and> err \<noteq> EOF \<and> snd (Buffer_unvalidated_chunks src b off) = err)"

lemma only_failures_below_Nil: "only_failures_below src []"
  by (simp add: only_failures_below_def)

lemma only_failures_below_Cons:
  "only_failures_below src (c # calls) =
     ((\<exists>err b off. c = OnErrorCall err \<and> err \<noteq> EOF \<and> snd (Buffer_unvalidated_chunks src b off) = err)
      \<and> only_failures_below src calls)"
  by (simp add: only_failures_below_def)

lemma errorHandlingChunkReader_drain_calls:
  assumes "errorHandlingChunkReader_drain src eh b off h = Some r"
  shows "only_failures_below src (snd (snd (snd r)))"
proof (rule errorHandlingChunkReader_drain.raw_induct
    [where P = "\<lambda>src eh b off h r. only_failures_below src (snd (snd (snd r)))", OF _ assms],
    goal_cases)
  case (1 drain src eh b off h r)
  note IH = 1(1) and step = 1(2)
  obtain chunks err where rd: "Buffer_unvalidated_chunks src b off = (chunks, err)"
    by (metis prod.exhaust)
  show ?case
  proof (cases "err = EOF")
    case True
    with rd step show ?thesis by (auto simp: only_failures_below_Nil)
  next
    case False
    have below: "\<exists>err' b' off'. OnErrorCall err = (OnErrorCall err' :: 'b Buffer call) \<and> err' \<noteq> EOF
                   \<and> snd (Buffer_unvalidated_chunks src b' off') = err'"
      using rd False by (intro exI[of _ err] exI[of _ b] exI[of _ off]) simp
    obtain b' te h' where oe: "OnError eh h err = ((b', te), h')"
      by (metis prod.exhaust)
    show ?thesis
    proof (cases te)
      case (Some translatedErr)
      with rd False oe step have "snd (snd (snd r)) = [OnErrorCall err]" by auto
      with below show ?thesis
        by (simp add: only_failures_below_Cons only_failures_below_Nil)
    next
      case None
      with rd False oe step obtain r' where
        rec: "drain src eh b' (off + int (length (concat chunks))) h' = Some r'"
        and r: "snd (snd (snd r)) = OnErrorCall err # snd (snd (snd r'))"
        by (auto simp: bind_eq_Some_conv)
      from IH[OF rec] r below show ?thesis
        by (simp add: only_failures_below_Cons)
    qed
  qed
qed

lemma map_option_bind_Some:
  "map_option f (Option.bind x (\<lambda>y. Some (g y))) = Option.bind x (\<lambda>y. Some (f (g y)))"
  by (cases x) simp_all

lemma casValidatingChunkReader_end_error:
  "err \<noteq> EOF \<Longrightarrow> casValidatingChunkReader_end hash mismatch d bytes err = err"
  by (simp add: casValidatingChunkReader_end_def)

lemma casErrorHandlingBuffer_validated_drain:
  "ChunkReader_drain src hash mismatch (casErrorHandlingBuffer_toValidatedChunkReader b chunkPolicy) h =
     map_option
       (\<lambda>(chunks, err, h', calls).
          (chunks, casValidatingChunkReader_end hash mismatch (digest b) (concat chunks) err, h', calls))
       (errorHandlingChunkReader_drain src (errorHandler b) (base b) 0 h)"
  by (simp add: casErrorHandlingBuffer_toValidatedChunkReader_def
      casErrorHandlingBuffer_toUnvalidatedChunkReader_def)

text \<open>
  C5. The streaming reads of an error-handling buffer are composed with the checksum-validating
  reader strictly outside the retrying reader. \<open>IntoWriter\<close> and \<open>ToReader\<close> always, and
  \<open>ToChunkReader\<close> whenever a read takes place (when \<open>validateReaderOffset\<close> rejects the offset
  it discards the buffer and returns an error reader, so nothing is read), build a chain in
  which the upstream of the validating reader is the retrying reader over the base buffer and
  the error handler. Read to its end, such a chain delivers what the retrying read of the
  base delivers, with the validator's verdict in place of the final \<open>io.EOF\<close> (\<open>ToReader\<close> as
  bytes, \<open>ToChunkReader\<close> from its offset on). A transport failure of the base is passed to
  \<open>OnError\<close> and the read resumes on the replacement buffer at the offset reached, or ends
  with the translated error. A checksum mismatch ends the read with the checksum error, the
  handler and its calls being as the retrying read left them: the handler is only ever called
  with failures of the readers below, so the mismatch is not passed to it and is final.
\<close>

theorem casErrorHandlingBuffer_validation_outside_retry:
  fixes b :: "('x, 'h) casErrorHandlingBuffer" and src :: "'x source"
  shows "(casErrorHandlingBuffer_IntoWriter via b w =
        via (casValidatingChunkReader
               (errorHandlingChunkReader (base b) (errorHandler b) 0 chunkSizeDontCare)
               (digest b) (repairStrategy b)) w)
    \<and> (casErrorHandlingBuffer_ToReader b =
        casValidatingReader (errorHandlingReader (base b) (errorHandler b) 0) (digest b) (repairStrategy b))
    \<and> (casErrorHandlingBuffer_ToChunkReader validate b off chunkPolicy h =
        (case validate (GetSizeBytes (digest b)) off of
           None \<Rightarrow>
             (offsetChunkReader
                (casValidatingChunkReader
                   (errorHandlingChunkReader (base b) (errorHandler b) 0 chunkPolicy)
                   (digest b) (repairStrategy b)) off, h, [])
         | Some err \<Rightarrow>
             (errorChunkReader err, Done (errorHandler b) h, [DoneCall, DiscardCall (base b)])))
    \<and> (validates_outside_retry (casErrorHandlingBuffer_toValidatedChunkReader b chunkPolicy)
          (base b) (errorHandler b)
        \<and> Reader_validates_outside_retry (casErrorHandlingBuffer_ToReader b) (base b) (errorHandler b))
    \<and> (Reader_drain src hash mismatch (casErrorHandlingBuffer_ToReader b) h =
        map_option (\<lambda>(chunks, err, h', calls). (concat chunks, err, h', calls))
          (ChunkReader_drain src hash mismatch
             (casErrorHandlingBuffer_toValidatedChunkReader b chunkSizeDontCare) h))
    \<and> (validate (GetSizeBytes (digest b)) off = None \<longrightarrow>
        ChunkReader_drain src hash mismatch
          (fst (casErrorHandlingBuffer_ToChunkReader validate b off chunkPolicy h)) h =
        map_option (\<lambda>(chunks, err, h', calls). (skip_bytes (nat off) chunks, err, h', calls))
          (ChunkReader_drain src hash mismatch
             (casErrorHandlingBuffer_toValidatedChunkReader b chunkPolicy) h))
    \<and> ((case Buffer_unvalidated_chunks src (base b) 0 of
          (chunks, err) \<Rightarrow>
            ChunkReader_drain src hash mismatch
              (casErrorHandlingBuffer_toValidatedChunkReader b chunkPolicy) h =
            (if err = EOF
             then Some (chunks, casValidatingChunkReader_end hash mismatch (digest b) (concat chunks) EOF,
                        h, [])
             else (case OnError (errorHandler b) h err of
                     ((replacement, None), h') \<Rightarrow>
                       Option.bind
                         (errorHandlingChunkReader_drain src (errorHandler b) replacement
                            (int (length (concat chunks))) h')
                         (\<lambda>(chunks', err', h'', calls).
                            Some (chunks @ chunks',
                                  casValidatingChunkReader_end hash mismatch (digest b)
                                    (concat (chunks @ chunks')) err',
                                  h'', OnErrorCall err # calls))
                   | ((replacement, Some translatedErr), h') \<Rightarrow>
                       Some (chunks,
                             casValidatingChunkReader_end hash mismatch (digest b) (concat chunks)
                               translatedErr,
                             h', [OnErrorCall err])))))
    \<and> (\<forall>chunks h' calls.
          errorHandlingChunkReader_drain src (errorHandler b) (base b) 0 h = Some (chunks, EOF, h', calls)
          \<and> \<not> (int (length (concat chunks)) = GetSizeBytes (digest b)
                 \<and> hash (concat chunks) = GetHashString (digest b)) \<longrightarrow>
          ChunkReader_drain src hash mismatch
            (casErrorHandlingBuffer_toValidatedChunkReader b chunkPolicy) h
            = Some (chunks, mismatch, h', calls))
    \<and> (\<forall>r. ChunkReader_drain src hash mismatch
               (casErrorHandlingBuffer_toValidatedChunkReader b chunkPolicy) h = Some r \<longrightarrow>
             only_failures_below src (snd (snd (snd r))))"
proof (intro conjI)
  show "casErrorHandlingBuffer_IntoWriter via b w =
        via (casValidatingChunkReader
               (errorHandlingChunkReader (base b) (errorHandler b) 0 chunkSizeDontCare)
               (digest b) (repairStrategy b)) w"
    by (simp add: casErrorHandlingBuffer_IntoWriter_def casErrorHandlingBuffer_toValidatedChunkReader_def
        casErrorHandlingBuffer_toUnvalidatedChunkReader_def)
  show "casErrorHandlingBuffer_ToReader b =
        casValidatingReader (errorHandlingReader (base b) (errorHandler b) 0) (digest b) (repairStrategy b)"
    by (simp add: casErrorHandlingBuffer_ToReader_def casErrorHandlingBuffer_toUnvalidatedReader_def)
  show "casErrorHandlingBuffer_ToChunkReader validate b off chunkPolicy h =
        (case validate (GetSizeBytes (digest b)) off of
           None \<Rightarrow>
             (offsetChunkReader
                (casValidatingChunkReader
                   (errorHandlingChunkReader (base b) (errorHandler b) 0 chunkPolicy)
                   (digest b) (repairStrategy b)) off, h, [])
         | Some err \<Rightarrow>
             (errorChunkReader err, Done (errorHandler b) h, [DoneCall, DiscardCall (base b)]))"
    by (simp add: casErrorHandlingBuffer_ToChunkReader_def casErrorHandlingBuffer_Discard_def
        casErrorHandlingBuffer_toValidatedChunkReader_def
        casErrorHandlingBuffer_toUnvalidatedChunkReader_def split: option.splits)
  show "validates_outside_retry (casErrorHandlingBuffer_toValidatedChunkReader b chunkPolicy)
          (base b) (errorHandler b)"
    by (simp add: casErrorHandlingBuffer_toValidatedChunkReader_def
        casErrorHandlingBuffer_toUnvalidatedChunkReader_def)
  show "Reader_validates_outside_retry (casErrorHandlingBuffer_ToReader b) (base b) (errorHandler b)"
    by (simp add: casErrorHandlingBuffer_toValidatedChunkReader_def
        casErrorHandlingBuffer_toUnvalidatedChunkReader_def casErrorHandlingBuffer_ToReader_def
        casErrorHandlingBuffer_toUnvalidatedReader_def)
  show "Reader_drain src hash mismatch (casErrorHandlingBuffer_ToReader b) h =
        map_option (\<lambda>(chunks, err, h', calls). (concat chunks, err, h', calls))
          (ChunkReader_drain src hash mismatch
             (casErrorHandlingBuffer_toValidatedChunkReader b chunkSizeDontCare) h)"
    by (cases "errorHandlingChunkReader_drain src (errorHandler b) (base b) 0 h")
      (auto simp: casErrorHandlingBuffer_ToReader_def casErrorHandlingBuffer_toUnvalidatedReader_def
        casErrorHandlingBuffer_toValidatedChunkReader_def
        casErrorHandlingBuffer_toUnvalidatedChunkReader_def)
  show "validate (GetSizeBytes (digest b)) off = None \<longrightarrow>
        ChunkReader_drain src hash mismatch
          (fst (casErrorHandlingBuffer_ToChunkReader validate b off chunkPolicy h)) h =
        map_option (\<lambda>(chunks, err, h', calls). (skip_bytes (nat off) chunks, err, h', calls))
          (ChunkReader_drain src hash mismatch
             (casErrorHandlingBuffer_toValidatedChunkReader b chunkPolicy) h)"
    by (simp add: casErrorHandlingBuffer_ToChunkReader_def)
  show "(case Buffer_unvalidated_chunks src (base b) 0 of
          (chunks, err) \<Rightarrow>
            ChunkReader_drain src hash mismatch
              (casErrorHandlingBuffer_toValidatedChunkReader b chunkPolicy) h =
            (if err = EOF
             then Some (chunks, casValidatingChunkReader_end hash mismatch (digest b) (concat chunks) EOF,
                        h, [])
             else (case OnError (errorHandler b) h err of
                     ((replacement, None), h') \<Rightarrow>
                       Option.bind
                         (errorHandlingChunkReader_drain src (errorHandler b) replacement
                            (int (length (concat chunks))) h')
                         (\<lambda>(chunks', err', h'', calls).
                            Some (chunks @ chunks',
                                  casValidatingChunkReader_end hash mismatch (digest b)
                                    (concat (chunks @ chunks')) err',
                                  h'', OnErrorCall err # calls))
                   | ((replacement, Some translatedErr), h') \<Rightarrow>
                       Some (chunks,
                             casValidatingChunkReader_end hash mismatch (digest b) (concat chunks)
                               translatedErr,
                             h', [OnErrorCall err]))))"
  proof -
    obtain chunks err where rd: "Buffer_unvalidated_chunks src (base b) 0 = (chunks, err)"
      by (metis prod.exhaust)
    obtain replacement te h' where oe: "OnError (errorHandler b) h err = ((replacement, te), h')"
      by (metis prod.exhaust)
    show ?thesis
      unfolding casErrorHandlingBuffer_validated_drain
      by (subst errorHandlingChunkReader_drain.simps)
        (cases "errorHandlingChunkReader_drain src (errorHandler b) replacement
                  (int (length (concat chunks))) h'";
         cases te; simp add: rd oe split: prod.splits)
  qed
  show "\<forall>chunks h' calls.
          errorHandlingChunkReader_drain src (errorHandler b) (base b) 0 h = Some (chunks, EOF, h', calls)
          \<and> \<not> (int (length (concat chunks)) = GetSizeBytes (digest b)
                 \<and> hash (concat chunks) = GetHashString (digest b)) \<longrightarrow>
          ChunkReader_drain src hash mismatch
            (casErrorHandlingBuffer_toValidatedChunkReader b chunkPolicy) h
            = Some (chunks, mismatch, h', calls)"
    unfolding casErrorHandlingBuffer_validated_drain
    by (auto simp: casValidatingChunkReader_end_def)
  show "\<forall>r. ChunkReader_drain src hash mismatch
               (casErrorHandlingBuffer_toValidatedChunkReader b chunkPolicy) h = Some r \<longrightarrow>
             only_failures_below src (snd (snd (snd r)))"
    unfolding casErrorHandlingBuffer_validated_drain
    using errorHandlingChunkReader_drain_calls by fastforce
qed

text \<open>
  A stream that breaks and is resumed. Buffer \<open>0\<close> delivers the byte \<open>h\<close> and then fails with a
  transport error; buffer \<open>1\<close> holds \<open>hi\<close> and is read from any offset to its end. The hash of
  \<open>hi\<close> is \<open>abc123\<close>.
\<close>

definition example_source :: "nat source" where
  "example_source x off =
     (if x = 0 then ([[104]], External 14) else ([drop (nat off) [104, 105]], EOF))"

definition example_hash :: "byte list \<Rightarrow> string" where
  "example_hash bytes = (if bytes = [104, 105] then ''abc123'' else ''000000'')"

theorem casErrorHandlingBuffer_validation_outside_retry_witness:
  "ChunkReader_drain example_source example_hash (External 99)
       (casErrorHandlingBuffer_toValidatedChunkReader
          (newCASErrorHandlingBuffer (externalBuffer 0) example_handler
             \<lparr>GetInstance = ''main'', GetHashString = ''abc123'', GetSizeBytes = 2\<rparr> Irreparable)
          chunkSizeDontCare) 0
     = Some ([[104], [105]], EOF, 1, [OnErrorCall (External 14)])
   \<and> errorHandlingChunkReader_drain example_source example_handler (externalBuffer 0) 0 0
     = Some ([[104], [105]], EOF, 1, [OnErrorCall (External 14)])
   \<and> ChunkReader_drain example_source example_hash (External 99)
       (casErrorHandlingBuffer_toValidatedChunkReader
          (newCASErrorHandlingBuffer (externalBuffer 0) example_handler example_digest Irreparable)
          chunkSizeDontCare) 0
     = Some ([[104], [105]], External 99, 1, [OnErrorCall (External 14)])
   \<and> only_failures_below example_source [OnErrorCall (External 14)]
   \<and> validateReaderOffset (External 3) 2 1 = None
   \<and> ChunkReader_drain example_source example_hash (External 99)
       (fst (casErrorHandlingBuffer_ToChunkReader (validateReaderOffset (External 3))
          (newCASErrorHandlingBuffer (externalBuffer 0) example_handler
             \<lparr>GetInstance = ''main'', GetHashString = ''abc123'', GetSizeBytes = 2\<rparr> Irreparable)
          1 (ChunkSizeAtMost 2) 0)) 0
     = Some ([[105]], EOF, 1, [OnErrorCall (External 14)])
   \<and> casErrorHandlingBuffer_ToChunkReader (validateReaderOffset (External 3))
        (newCASErrorHandlingBuffer (externalBuffer 0) example_handler example_digest Irreparable)
        12 (ChunkSizeAtMost 2) 0
      = (errorChunkReader (External 3), Done example_handler 0, [DoneCall, DiscardCall (externalBuffer 0)])"
proof -
  let ?good = "newCASErrorHandlingBuffer (externalBuffer (0::nat)) example_handler
             \<lparr>GetInstance = ''main'', GetHashString = ''abc123'', GetSizeBytes = 2\<rparr> Irreparable"
  let ?bad = "newCASErrorHandlingBuffer (externalBuffer (0::nat)) example_handler example_digest Irreparable"
  have resumed: "errorHandlingChunkReader_drain example_source example_handler (externalBuffer (Suc 0)) 1 (Suc 0)
                   = Some ([[105]], EOF, Suc 0, [])"
    by (subst errorHandlingChunkReader_drain.simps) (simp add: example_source_def)
  have oe: "OnError example_handler 0 (External 14) = ((externalBuffer (Suc 0), None), Suc 0)"
    by (simp add: example_handler_def)
  have retry: "errorHandlingChunkReader_drain example_source example_handler (externalBuffer 0) 0 0
                 = Some ([[104], [105]], EOF, 1, [OnErrorCall (External 14)])"
    by (subst errorHandlingChunkReader_drain.simps) (simp add: example_source_def oe resumed)
  note unfold_dc = casErrorHandlingBuffer_validation_outside_retry
      [where b = ?good and src = example_source and hash = example_hash and mismatch = "External 99"
         and h = 0 and validate = "validateReaderOffset (External 3)" and off = 1
         and chunkPolicy = chunkSizeDontCare and via = "\<lambda>r w. w" and w = "()", THEN conjunct2, THEN conjunct2, THEN conjunct2, THEN conjunct2, THEN conjunct2, THEN conjunct2, THEN conjunct1]
  note unfold_cp = casErrorHandlingBuffer_validation_outside_retry
      [where b = ?good and src = example_source and hash = example_hash and mismatch = "External 99"
         and h = 0 and validate = "validateReaderOffset (External 3)" and off = 1
         and chunkPolicy = "ChunkSizeAtMost 2" and via = "\<lambda>r w. w" and w = "()", THEN conjunct2, THEN conjunct2, THEN conjunct2, THEN conjunct2, THEN conjunct2, THEN conjunct2, THEN conjunct1]
  note final = casErrorHandlingBuffer_validation_outside_retry
      [where b = ?bad and src = example_source and hash = example_hash and mismatch = "External 99"
         and h = 0 and validate = "validateReaderOffset (External 3)" and off = 12
         and chunkPolicy = chunkSizeDontCare and via = "\<lambda>r w. w" and w = "()", THEN conjunct2, THEN conjunct2, THEN conjunct2, THEN conjunct2, THEN conjunct2, THEN conjunct2, THEN conjunct2, THEN conjunct1]
  note below = casErrorHandlingBuffer_validation_outside_retry
      [where b = ?good and src = example_source and hash = example_hash and mismatch = "External 99"
         and h = 0 and validate = "validateReaderOffset (External 3)" and off = 1
         and chunkPolicy = chunkSizeDontCare and via = "\<lambda>r w. w" and w = "()", THEN conjunct2, THEN conjunct2, THEN conjunct2, THEN conjunct2, THEN conjunct2, THEN conjunct2, THEN conjunct2, THEN conjunct2]
  note offset = casErrorHandlingBuffer_validation_outside_retry
      [where b = ?good and src = example_source and hash = example_hash and mismatch = "External 99"
         and h = 0 and validate = "validateReaderOffset (External 3)" and off = 1
         and chunkPolicy = "ChunkSizeAtMost 2" and via = "\<lambda>r w. w" and w = "()", THEN conjunct2, THEN conjunct2, THEN conjunct2, THEN conjunct2, THEN conjunct2, THEN conjunct1]
  note rejected = casErrorHandlingBuffer_validation_outside_retry
      [where b = ?bad and src = example_source and hash = example_hash and mismatch = "External 99"
         and h = 0 and validate = "validateReaderOffset (External 3)" and off = 12
         and chunkPolicy = "ChunkSizeAtMost 2" and via = "\<lambda>r w. w" and w = "()", THEN conjunct2, THEN conjunct2, THEN conjunct1]
  have g1: "ChunkReader_drain example_source example_hash (External 99)
       (casErrorHandlingBuffer_toValidatedChunkReader ?good chunkSizeDontCare) 0
     = Some ([[104], [105]], EOF, 1, [OnErrorCall (External 14)])"
    using unfold_dc resumed oe
    by (simp add: newCASErrorHandlingBuffer_def example_source_def
        example_hash_def casValidatingChunkReader_end_def)
  have g1': "ChunkReader_drain example_source example_hash (External 99)
       (casErrorHandlingBuffer_toValidatedChunkReader ?good (ChunkSizeAtMost 2)) 0
     = Some ([[104], [105]], EOF, 1, [OnErrorCall (External 14)])"
    using unfold_cp resumed oe
    by (simp add: newCASErrorHandlingBuffer_def example_source_def
        example_hash_def casValidatingChunkReader_end_def)
  have b1: "ChunkReader_drain example_source example_hash (External 99)
       (casErrorHandlingBuffer_toValidatedChunkReader ?bad chunkSizeDontCare) 0
     = Some ([[104], [105]], External 99, 1, [OnErrorCall (External 14)])"
    using final retry
    by (simp add: newCASErrorHandlingBuffer_def example_digest_def)
  have ofb: "only_failures_below example_source [OnErrorCall (External 14)]"
    using below g1 by simp
  have v: "validateReaderOffset (External 3) 2 1 = None"
    by (simp add: validateReaderOffset_def)
  have c1: "ChunkReader_drain example_source example_hash (External 99)
       (fst (casErrorHandlingBuffer_ToChunkReader (validateReaderOffset (External 3)) ?good
          1 (ChunkSizeAtMost 2) 0)) 0
     = Some ([[105]], EOF, 1, [OnErrorCall (External 14)])"
    using offset g1' v by (simp add: newCASErrorHandlingBuffer_def)
  have c2: "casErrorHandlingBuffer_ToChunkReader (validateReaderOffset (External 3)) ?bad
        12 (ChunkSizeAtMost 2) 0
      = (errorChunkReader (External 3), Done example_handler 0, [DoneCall, DiscardCall (externalBuffer 0)])"
    using rejected
    by (simp add: newCASErrorHandlingBuffer_def validateReaderOffset_def example_digest_def)
  from g1 retry b1 ofb v c1 c2 show ?thesis by blast
qed

section \<open>The cloned buffer (\<open>cas_cloned_buffer.go\<close>)\<close>

text \<open>
  \<open>ToChunkReader\<close> and \<open>toUnvalidatedChunkReader\<close> of the \<open>Buffer\<close> interface, as the cloned
  buffer calls them on its base.
\<close>

fun Buffer_ToChunkReader :: "'x Buffer \<Rightarrow> int \<Rightarrow> ChunkPolicy \<Rightarrow> ('x, 'e) ChunkReader" where
  "Buffer_ToChunkReader (errorBuffer err) off chunkPolicy = errorBuffer_ToChunkReader err off chunkPolicy"
| "Buffer_ToChunkReader (externalBuffer x) off chunkPolicy = externalToChunkReader x off chunkPolicy"

fun Buffer_toUnvalidatedChunkReader :: "'x Buffer \<Rightarrow> int \<Rightarrow> ChunkPolicy \<Rightarrow> ('x, 'e) ChunkReader" where
  "Buffer_toUnvalidatedChunkReader (errorBuffer err) off chunkPolicy =
     errorBuffer_toUnvalidatedChunkReader err off chunkPolicy"
| "Buffer_toUnvalidatedChunkReader (externalBuffer x) off chunkPolicy =
     externalToUnvalidatedChunkReader x off chunkPolicy"

text \<open>
  The struct. \<open>consumersRemaining\<close> is a \<open>uint\<close> (64 bits); the channels of
  \<open>consumersWaiting\<close> are kept by identity, a channel made by \<open>toChunkReader\<close> being named
  by the number of channels made before it. All handles of one cloned buffer are the same
  pointer, so they share this one state.
\<close>

record 'x casClonedBuffer =
  base :: "'x Buffer"
  digest :: Digest
  repairStrategy :: RepairStrategy
  consumersRemaining :: "64 word"
  consumersWaiting :: "nat list"
  needsValidation :: bool

definition newCASClonedBuffer :: "'x Buffer \<Rightarrow> Digest \<Rightarrow> RepairStrategy \<Rightarrow> 'x casClonedBuffer" where
  "newCASClonedBuffer b d rs =
     \<lparr>base = b, digest = d, repairStrategy = rs,
      consumersRemaining = 1, consumersWaiting = [], needsValidation = False\<rparr>"

text \<open>A panic carries its message, or the error value it was raised with.\<close>

datatype panic = Panic string | PanicError error

text \<open>
  What \<open>toChunkReader\<close> hands to its caller: the last consumer gets its reader at once, any
  other consumer blocks on its channel \<open>c\<close> and returns
  \<open>newNormalizingChunkReader(<-c, chunkPolicy)\<close> once the channel delivers.
\<close>

datatype ('x, 'e) handed =
    Returned "('x, 'e) ChunkReader"
  | Receives nat ChunkPolicy

fun received :: "('x, 'e) handed \<Rightarrow> ('x, 'e) ChunkReader \<Rightarrow> ('x, 'e) ChunkReader" where
  "received (Returned r) rMultiplexed = r"
| "received (Receives c chunkPolicy) rMultiplexed = normalizingChunkReader rMultiplexed chunkPolicy"

text \<open>
  \<open>toChunkReader\<close> returns what it hands to the caller, the state of the buffer, and the
  messages it sends, each a channel with the reader sent on it.
\<close>

definition casClonedBuffer_toChunkReader ::
  "bool \<Rightarrow> ChunkPolicy \<Rightarrow> 'x casClonedBuffer
     \<Rightarrow> panic + (('x, 'e) handed \<times> 'x casClonedBuffer \<times> (nat \<times> ('x, 'e) ChunkReader) list)" where
  "casClonedBuffer_toChunkReader needsValidation' chunkPolicy b =
     (if consumersRemaining b = 0
      then Inl (Panic ''Attempted to obtain a chunk reader for a buffer that is already fully consumed'')
      else
        let b1 = b\<lparr>consumersRemaining := consumersRemaining b - 1,
                    needsValidation := needsValidation b \<or> needsValidation'\<rparr>
        in if consumersRemaining b1 = 0
           then
             let r = (if needsValidation b1
                      then Buffer_ToChunkReader (base b1) 0 chunkSizeDontCare
                      else Buffer_toUnvalidatedChunkReader (base b1) 0 chunkSizeDontCare);
                 rMultiplexed = multiplexedChunkReader r (int (length (consumersWaiting b1)))
             in Inr (Returned (normalizingChunkReader rMultiplexed chunkPolicy), b1,
                     map (\<lambda>c. (c, rMultiplexed)) (consumersWaiting b1))
           else
             let c = length (consumersWaiting b1)
             in Inr (Receives c chunkPolicy,
                     b1\<lparr>consumersWaiting := consumersWaiting b1 @ [c]\<rparr>, []))"

text \<open>\<open>CloneStream\<close> returns the buffer itself twice; the result here is its state.\<close>

definition casClonedBuffer_CloneStream :: "'x casClonedBuffer \<Rightarrow> panic + 'x casClonedBuffer" where
  "casClonedBuffer_CloneStream b =
     (if consumersRemaining b = 0
      then Inl (Panic ''Attempted to clone stream for a buffer that is already fully consumed'')
      else Inr (b\<lparr>consumersRemaining := consumersRemaining b + 1\<rparr>))"

text \<open>
  The methods of the cloned buffer that obtain a chunk reader, and \<open>CloneStream\<close>. Each of
  the former calls \<open>toChunkReader\<close> once, with the arguments \<open>declares\<close> lists
  (\<open>toUnvalidatedReader\<close> through \<open>toUnvalidatedChunkReader\<close>). \<open>ToActionResult\<close> and
  \<open>CloneCopy\<close> go through helpers declared elsewhere (\<open>toActionResultViaByteSlice\<close>,
  \<open>cloneCopyViaByteSlice\<close>) and are not listed.
\<close>

datatype terminal =
    IntoWriter | ReadAt | ToByteSlice | ToChunkReader int ChunkPolicy | ToReader | Discard
  | toUnvalidatedChunkReader int ChunkPolicy | toUnvalidatedReader int

fun declares :: "terminal \<Rightarrow> bool \<times> ChunkPolicy" where
  "declares IntoWriter = (True, chunkSizeDontCare)"
| "declares ReadAt = (True, chunkSizeDontCare)"
| "declares ToByteSlice = (True, chunkSizeDontCare)"
| "declares (ToChunkReader off chunkPolicy) = (True, chunkPolicy)"
| "declares ToReader = (True, chunkSizeDontCare)"
| "declares Discard = (False, chunkSizeDontCare)"
| "declares (toUnvalidatedChunkReader off chunkPolicy) = (False, chunkPolicy)"
| "declares (toUnvalidatedReader off) = (False, chunkSizeDontCare)"

datatype operation = Consume terminal | CloneStream

definition casClonedBuffer_consume ::
  "terminal \<Rightarrow> 'x casClonedBuffer
     \<Rightarrow> panic + (('x, 'e) handed \<times> 'x casClonedBuffer \<times> (nat \<times> ('x, 'e) ChunkReader) list)" where
  "casClonedBuffer_consume m b = casClonedBuffer_toChunkReader (fst (declares m)) (snd (declares m)) b"

text \<open>One operation on the shared state, and a sequence of them in the order the lock is taken.\<close>

definition casClonedBuffer_step :: "operation \<Rightarrow> 'x casClonedBuffer \<Rightarrow> panic + 'x casClonedBuffer" where
  "casClonedBuffer_step opn b =
     (case opn of
        CloneStream \<Rightarrow> casClonedBuffer_CloneStream b
      | Consume m \<Rightarrow>
          (case (casClonedBuffer_consume m b
                  :: panic + ((('x, unit) handed) \<times> 'x casClonedBuffer \<times> (nat \<times> ('x, unit) ChunkReader) list)) of
             Inl p \<Rightarrow> Inl p
           | Inr (r, b', sends) \<Rightarrow> Inr b'))"

fun casClonedBuffer_run :: "operation list \<Rightarrow> 'x casClonedBuffer \<Rightarrow> panic + 'x casClonedBuffer" where
  "casClonedBuffer_run [] b = Inr b"
| "casClonedBuffer_run (opn # opns) b =
     (case casClonedBuffer_step opn b of Inl p \<Rightarrow> Inl p | Inr b' \<Rightarrow> casClonedBuffer_run opns b')"




subsection \<open>Invariants of the shared state\<close>

lemma casClonedBuffer_step_CloneStream:
  "casClonedBuffer_step CloneStream b =
     (if consumersRemaining b = 0
      then Inl (Panic ''Attempted to clone stream for a buffer that is already fully consumed'')
      else Inr (b\<lparr>consumersRemaining := consumersRemaining b + 1\<rparr>))"
  by (simp add: casClonedBuffer_step_def casClonedBuffer_CloneStream_def)

lemma casClonedBuffer_step_Consume:
  "casClonedBuffer_step (Consume m) b =
     (if consumersRemaining b = 0
      then Inl (Panic ''Attempted to obtain a chunk reader for a buffer that is already fully consumed'')
      else if consumersRemaining b - 1 = 0
      then Inr (b\<lparr>consumersRemaining := consumersRemaining b - 1,
                  needsValidation := needsValidation b \<or> fst (declares m)\<rparr>)
      else Inr (b\<lparr>consumersRemaining := consumersRemaining b - 1,
                  needsValidation := needsValidation b \<or> fst (declares m),
                  consumersWaiting := consumersWaiting b @ [length (consumersWaiting b)]\<rparr>))"
  by (simp add: casClonedBuffer_step_def casClonedBuffer_consume_def casClonedBuffer_toChunkReader_def
      Let_def)















text \<open>
  C6. \<open>toChunkReader\<close>, hence every method that obtains a chunk reader, and \<open>CloneStream\<close>
  panic exactly when \<open>consumersRemaining\<close> is zero: on a fully consumed buffer both panic
  with their message instead of returning, and while a consumer is outstanding neither
  does. The call of the last consumer leaves the count at zero.
\<close>

theorem casClonedBuffer_consumed_panics:
  "isl (casClonedBuffer_toChunkReader nv chunkPolicy b
          :: panic + (('x, 'e) handed \<times> 'x casClonedBuffer \<times> (nat \<times> ('x, 'e) ChunkReader) list))
      = (consumersRemaining b = 0)
   \<and> isl (casClonedBuffer_consume m b
          :: panic + (('x, 'e) handed \<times> 'x casClonedBuffer \<times> (nat \<times> ('x, 'e) ChunkReader) list))
      = (consumersRemaining b = 0)
   \<and> isl (casClonedBuffer_CloneStream b) = (consumersRemaining b = 0)
   \<and> (consumersRemaining b = 0 \<longrightarrow>
        (casClonedBuffer_toChunkReader nv chunkPolicy b
          :: panic + (('x, 'e) handed \<times> 'x casClonedBuffer \<times> (nat \<times> ('x, 'e) ChunkReader) list))
          = Inl (Panic ''Attempted to obtain a chunk reader for a buffer that is already fully consumed'')
        \<and> casClonedBuffer_CloneStream b
          = Inl (Panic ''Attempted to clone stream for a buffer that is already fully consumed''))
   \<and> (\<forall>r b' sends.
        (casClonedBuffer_toChunkReader nv chunkPolicy b
          :: panic + (('x, 'e) handed \<times> 'x casClonedBuffer \<times> (nat \<times> ('x, 'e) ChunkReader) list))
          = Inr (Returned r, b', sends) \<longrightarrow> consumersRemaining b' = 0)"
  by (auto simp: casClonedBuffer_consume_def casClonedBuffer_toChunkReader_def
      casClonedBuffer_CloneStream_def Let_def split: if_splits)

theorem casClonedBuffer_consumed_panics_witness:
  "casClonedBuffer_run [CloneStream, Consume IntoWriter, Consume Discard]
       (newCASClonedBuffer (externalBuffer (0::nat)) example_digest Irreparable)
     = Inr \<lparr>base = externalBuffer 0, digest = example_digest, repairStrategy = Irreparable,
            consumersRemaining = 0, consumersWaiting = [0], needsValidation = True\<rparr>
   \<and> (casClonedBuffer_toChunkReader True chunkSizeDontCare
        \<lparr>base = externalBuffer (0::nat), digest = example_digest, repairStrategy = Irreparable,
            consumersRemaining = 0, consumersWaiting = [0], needsValidation = True\<rparr>
        :: panic + ((nat, unit) handed \<times> nat casClonedBuffer \<times> (nat \<times> (nat, unit) ChunkReader) list))
     = Inl (Panic ''Attempted to obtain a chunk reader for a buffer that is already fully consumed'')
   \<and> casClonedBuffer_CloneStream
        \<lparr>base = externalBuffer (0::nat), digest = example_digest, repairStrategy = Irreparable,
            consumersRemaining = 0, consumersWaiting = [0], needsValidation = True\<rparr>
     = Inl (Panic ''Attempted to clone stream for a buffer that is already fully consumed'')
   \<and> \<not> isl (casClonedBuffer_CloneStream
        \<lparr>base = externalBuffer (0::nat), digest = example_digest, repairStrategy = Irreparable,
            consumersRemaining = 1, consumersWaiting = [0], needsValidation = True\<rparr>)"
  using casClonedBuffer_consumed_panics
      [where 'e = unit and 'x = nat, of True chunkSizeDontCare
          "\<lparr>base = externalBuffer (0::nat), digest = example_digest, repairStrategy = Irreparable,
            consumersRemaining = 0, consumersWaiting = [0], needsValidation = True\<rparr>" IntoWriter]
    casClonedBuffer_consumed_panics
      [where 'e = unit and 'x = nat, of True chunkSizeDontCare
          "\<lparr>base = externalBuffer (0::nat), digest = example_digest, repairStrategy = Irreparable,
            consumersRemaining = 1, consumersWaiting = [0], needsValidation = True\<rparr>" IntoWriter]
  by (simp add: newCASClonedBuffer_def casClonedBuffer_step_CloneStream casClonedBuffer_step_Consume)

section \<open>The remote backend (\<open>content_addressable_storage_blob_access.go\<close>)\<close>

text \<open>\<open>fmt.Sprintf\<close>'s \<open>%d\<close> of an \<open>int64\<close>: decimal digits, with a minus sign below zero.\<close>

definition digit :: "nat \<Rightarrow> char" where
  "digit n = ''0123456789'' ! n"

fun fmt_nat :: "nat \<Rightarrow> string" where
  "fmt_nat n = (if n < 10 then [digit n] else fmt_nat (n div 10) @ [digit (n mod 10)])"

declare fmt_nat.simps [simp del]

definition fmt_d :: "int \<Rightarrow> string" where
  "fmt_d i = (if i < 0 then CHR ''-'' # fmt_nat (nat (- i)) else fmt_nat (nat i))"

text \<open>
  The messages of the byte stream service, with the fields the code sets, and the calls made
  on the service in their order. \<open>WriteOffset\<close> is an \<open>int64\<close>.
\<close>

record ReadRequest =
  ReadResourceName :: string

record WriteRequest =
  ResourceName :: string
  WriteOffset :: "64 word"
  FinishWrite :: bool
  Data :: "byte list"

datatype rpc =
    ReadRPC ReadRequest | CancelCall | WriteRPC | SendRPC WriteRequest | CloseAndRecvRPC
  | ReaderCloseCall

text \<open>
  The byte stream client is a collaborator: each of its calls may fail and may change the
  state \<open>'k\<close> of the connection. \<open>Read\<close> and \<open>Write\<close> open a stream, \<open>Send\<close> and
  \<open>CloseAndRecv\<close> act on the write stream.
\<close>

record 'k ByteStreamClient =
  Read :: "'k \<Rightarrow> ReadRequest \<Rightarrow> error option \<times> 'k"
  Write :: "'k \<Rightarrow> error option \<times> 'k"
  Send :: "'k \<Rightarrow> WriteRequest \<Rightarrow> error option \<times> 'k"
  CloseAndRecv :: "'k \<Rightarrow> error option \<times> 'k"

text \<open>
  \<open>Get\<close> returns the error buffer, or the buffer \<open>NewCASBufferFromChunkReader\<close> makes from the
  digest, the \<open>byteStreamChunkReader\<close> over the stream of the request, and \<open>Irreparable\<close>.
\<close>

datatype byteStreamChunkReader = byteStreamChunkReader ReadRequest

datatype casChunkReaderBuffer =
  NewCASBufferFromChunkReader Digest byteStreamChunkReader RepairStrategy

definition contentAddressableStorageBlobAccess_Get ::
  "'k ByteStreamClient \<Rightarrow> Digest \<Rightarrow> 'k \<Rightarrow> casChunkReaderBuffer Buffer \<times> 'k \<times> rpc list" where
  "contentAddressableStorageBlobAccess_Get byteStreamClient d k =
     (let readRequest =
            (if GetInstance d = ''''
             then \<lparr>ReadResourceName = ''blobs/'' @ GetHashString d @ ''/'' @ fmt_d (GetSizeBytes d)\<rparr>
             else \<lparr>ReadResourceName =
                     GetInstance d @ ''/blobs/'' @ GetHashString d @ ''/'' @ fmt_d (GetSizeBytes d)\<rparr>)
      in case Read byteStreamClient k readRequest of
           (Some err, k') \<Rightarrow> (NewBufferFromError err, k', [ReadRPC readRequest, CancelCall])
         | (None, k') \<Rightarrow>
             (externalBuffer (NewCASBufferFromChunkReader d (byteStreamChunkReader readRequest) Irreparable),
              k', [ReadRPC readRequest]))"

text \<open>
  The loop of \<open>Put\<close> over the chunk reader of the buffer. The reader of a blob yields finitely
  many chunks and then an error (\<open>io.EOF\<close> at the end of the blob), so it is given by the
  list of its chunks and that error.
\<close>

fun Put_loop ::
  "'k ByteStreamClient \<Rightarrow> byte list list \<Rightarrow> error \<Rightarrow> string \<Rightarrow> 64 word \<Rightarrow> 'k \<Rightarrow> rpc list
     \<Rightarrow> error option \<times> 'k \<times> rpc list" where
  "Put_loop byteStreamClient [] err resourceName writeOffset k calls =
     (if err = EOF
      then (case Send byteStreamClient k
                   \<lparr>ResourceName = resourceName, WriteOffset = writeOffset,
                    FinishWrite = True, Data = []\<rparr> of
              (Some err', k') \<Rightarrow>
                (Some err', k',
                 calls @ [SendRPC \<lparr>ResourceName = resourceName, WriteOffset = writeOffset,
                                   FinishWrite = True, Data = []\<rparr>])
            | (None, k') \<Rightarrow>
                (case CloseAndRecv byteStreamClient k' of
                   (err', k'') \<Rightarrow>
                     (err', k'',
                      calls @ [SendRPC \<lparr>ResourceName = resourceName, WriteOffset = writeOffset,
                                        FinishWrite = True, Data = []\<rparr>, CloseAndRecvRPC])))
      else (Some err, k, calls))"
| "Put_loop byteStreamClient (data # chunks) err resourceName writeOffset k calls =
     (case Send byteStreamClient k
             \<lparr>ResourceName = resourceName, WriteOffset = writeOffset,
              FinishWrite = False, Data = data\<rparr> of
        (Some err', k') \<Rightarrow>
          (Some err', k',
           calls @ [SendRPC \<lparr>ResourceName = resourceName, WriteOffset = writeOffset,
                             FinishWrite = False, Data = data\<rparr>])
      | (None, k') \<Rightarrow>
          Put_loop byteStreamClient chunks err '''' (writeOffset + of_nat (length data)) k'
            (calls @ [SendRPC \<lparr>ResourceName = resourceName, WriteOffset = writeOffset,
                               FinishWrite = False, Data = data\<rparr>]))"

text \<open>
  \<open>Put\<close>. The UUID generator is a collaborator with state \<open>'g\<close>; a UUID is kept as the text
  \<open>%s\<close> prints for it, and \<open>uuid.Must\<close> panics with the generator's error. The buffer is
  given by its method \<open>ToChunkReader\<close>; the deferred \<open>r.Close()\<close> is the last call.
\<close>

definition contentAddressableStorageBlobAccess_Put ::
  "'k ByteStreamClient \<Rightarrow> ('g \<Rightarrow> (string \<times> error option) \<times> 'g) \<Rightarrow> int \<Rightarrow> Digest
     \<Rightarrow> (int \<Rightarrow> ChunkPolicy \<Rightarrow> byte list list \<times> error) \<Rightarrow> 'k \<Rightarrow> 'g
     \<Rightarrow> panic + (error option \<times> 'k \<times> 'g \<times> rpc list)" where
  "contentAddressableStorageBlobAccess_Put byteStreamClient uuidGenerator readChunkSize d b_ToChunkReader k g =
     (case b_ToChunkReader 0 (ChunkSizeAtMost readChunkSize) of
        (chunks, readErr) \<Rightarrow>
          (case Write byteStreamClient k of
             (Some err, k') \<Rightarrow> Inr (Some err, k', g, [WriteRPC, ReaderCloseCall])
           | (None, k') \<Rightarrow>
               (case uuidGenerator g of
                  ((u, Some err), g') \<Rightarrow> Inl (PanicError err)
                | ((u, None), g') \<Rightarrow>
                    (let resourceName =
                           (if GetInstance d = ''''
                            then ''uploads/'' @ u @ ''/blobs/'' @ GetHashString d @ ''/''
                                   @ fmt_d (GetSizeBytes d)
                            else GetInstance d @ ''/uploads/'' @ u @ ''/blobs/'' @ GetHashString d
                                   @ ''/'' @ fmt_d (GetSizeBytes d))
                     in case Put_loop byteStreamClient chunks readErr resourceName 0 k' [WriteRPC] of
                          (err, k'', calls) \<Rightarrow> Inr (err, k'', g', calls @ [ReaderCloseCall])))))"

text \<open>The requests of a call log that were sent on the write stream.\<close>

fun sent :: "rpc list \<Rightarrow> WriteRequest list" where
  "sent [] = []"
| "sent (SendRPC req # calls) = req # sent calls"
| "sent (_ # calls) = sent calls"

lemma sent_append: "sent (xs @ ys) = sent xs @ sent ys"
  by (induction xs rule: sent.induct) auto

lemma Put_loop_sent:
  "Put_loop C chunks err resourceName writeOffset k calls = (res, k', calls') \<Longrightarrow>
     \<exists>reqs. sent calls' = sent calls @ reqs
       \<and> map ResourceName reqs = take (length reqs) (resourceName # replicate (length chunks) '''')
       \<and> (chunks \<noteq> [] \<or> err = EOF \<longrightarrow> reqs \<noteq> [])"
proof (induction chunks arbitrary: resourceName writeOffset k calls)
  case Nil
  then show ?case
    by (auto simp: sent_append split: if_splits prod.splits option.splits)
next
  case (Cons data chunks)
  let ?req = "\<lparr>ResourceName = resourceName, WriteOffset = writeOffset, FinishWrite = False, Data = data\<rparr>"
  obtain se k1 where send: "Send C k ?req = (se, k1)" by (metis prod.exhaust)
  show ?case
  proof (cases se)
    case (Some e)
    with Cons.prems send have "calls' = calls @ [SendRPC ?req]" by simp
    then have "sent calls' = sent calls @ [?req]" by (simp add: sent_append)
    then show ?thesis by (intro exI[of _ "[?req]"]) simp
  next
    case None
    with Cons.prems send
    have "Put_loop C chunks err '''' (writeOffset + of_nat (length data)) k1 (calls @ [SendRPC ?req])
            = (res, k', calls')" by simp
    from Cons.IH[OF this] obtain reqs where
      s: "sent calls' = sent (calls @ [SendRPC ?req]) @ reqs"
      and n: "map ResourceName reqs = take (length reqs) ('''' # replicate (length chunks) '''')"
      by blast
    have r: "'''' # replicate (length chunks) '''' = replicate (Suc (length chunks)) ('''' :: string)" by simp
    from s have "sent calls' = sent calls @ (?req # reqs)" by (simp add: sent_append)
    moreover from n have "map ResourceName (?req # reqs) =
        take (length (?req # reqs)) (resourceName # replicate (length (data # chunks)) '''')"
      unfolding r by simp
    ultimately show ?thesis by (intro exI[of _ "?req # reqs"]) simp
  qed
qed


text \<open>
  The resource names in the spec's words: \<open>[namespace/]blobs/<hash>/<size>\<close> for a read and
  \<open>[namespace/]uploads/<uuid>/blobs/<hash>/<size>\<close> for a write.
\<close>

definition namespace_prefix :: "Digest \<Rightarrow> string" where
  "namespace_prefix d = (if GetInstance d = '''' then '''' else GetInstance d @ ''/'')"

definition read_resource_name :: "Digest \<Rightarrow> string" where
  "read_resource_name d =
     namespace_prefix d @ ''blobs/'' @ GetHashString d @ ''/'' @ fmt_d (GetSizeBytes d)"

definition write_resource_name :: "Digest \<Rightarrow> string \<Rightarrow> string" where
  "write_resource_name d u =
     namespace_prefix d @ ''uploads/'' @ u @ ''/blobs/'' @ GetHashString d @ ''/''
       @ fmt_d (GetSizeBytes d)"

text \<open>
  C8. \<open>Get\<close> opens its read with one \<open>ReadRequest\<close>, whose resource name is
  \<open>blobs/<hash>/<size>\<close> when the instance of the digest is empty and
  \<open><instance>/blobs/<hash>/<size>\<close> otherwise. \<open>Put\<close>, once \<open>Write\<close> has opened the stream,
  takes one UUID from the generator (whose state advances by that one call) and names the
  upload \<open>uploads/<uuid>/blobs/<hash>/<size>\<close>, with \<open><instance>/\<close> before it when the instance
  is not empty: the first request it sends carries that name, every later request the empty
  name, and a request is sent whenever the reader yields a chunk or ends with \<open>io.EOF\<close>.
\<close>

theorem remote_resource_names:
  fixes C :: "'k ByteStreamClient" and uuidGenerator :: "'g \<Rightarrow> (string \<times> error option) \<times> 'g"
  shows "(snd (snd (contentAddressableStorageBlobAccess_Get C d k))
            = [ReadRPC \<lparr>ReadResourceName = read_resource_name d\<rparr>]
          \<or> snd (snd (contentAddressableStorageBlobAccess_Get C d k))
            = [ReadRPC \<lparr>ReadResourceName = read_resource_name d\<rparr>, CancelCall])
    \<and> (Write C k = (None, k1) \<and> uuidGenerator g = ((u, None), g1)
         \<and> b_ToChunkReader 0 (ChunkSizeAtMost readChunkSize) = (chunks, readErr) \<longrightarrow>
        (\<exists>err k2 calls.
           contentAddressableStorageBlobAccess_Put C uuidGenerator readChunkSize d b_ToChunkReader k g
             = Inr (err, k2, g1, calls)
           \<and> map ResourceName (sent calls)
               = take (length (sent calls)) (write_resource_name d u # replicate (length chunks) '''')
           \<and> (chunks \<noteq> [] \<or> readErr = EOF \<longrightarrow> sent calls \<noteq> [])))"
proof (intro conjI impI)
  show "snd (snd (contentAddressableStorageBlobAccess_Get C d k))
            = [ReadRPC \<lparr>ReadResourceName = read_resource_name d\<rparr>]
          \<or> snd (snd (contentAddressableStorageBlobAccess_Get C d k))
            = [ReadRPC \<lparr>ReadResourceName = read_resource_name d\<rparr>, CancelCall]"
    by (auto simp: contentAddressableStorageBlobAccess_Get_def read_resource_name_def
        namespace_prefix_def Let_def split: prod.splits option.splits)
next
  assume a: "Write C k = (None, k1) \<and> uuidGenerator g = ((u, None), g1)
         \<and> b_ToChunkReader 0 (ChunkSizeAtMost readChunkSize) = (chunks, readErr)"
  let ?name = "if GetInstance d = ''''
                then ''uploads/'' @ u @ ''/blobs/'' @ GetHashString d @ ''/'' @ fmt_d (GetSizeBytes d)
                else GetInstance d @ ''/uploads/'' @ u @ ''/blobs/'' @ GetHashString d
                       @ ''/'' @ fmt_d (GetSizeBytes d)"
  have name: "?name = write_resource_name d u"
    by (simp add: write_resource_name_def namespace_prefix_def)
  obtain err k2 calls where loop: "Put_loop C chunks readErr ?name 0 k1 [WriteRPC] = (err, k2, calls)"
    by (metis prod.exhaust)
  from Put_loop_sent[OF loop] obtain reqs where
    s: "sent calls = reqs"
    and n: "map ResourceName reqs = take (length reqs) (?name # replicate (length chunks) '''')"
    and ne: "chunks \<noteq> [] \<or> readErr = EOF \<longrightarrow> reqs \<noteq> []"
    by auto
  have put: "contentAddressableStorageBlobAccess_Put C uuidGenerator readChunkSize d b_ToChunkReader k g
             = Inr (err, k2, g1, calls @ [ReaderCloseCall])"
    using a loop by (simp add: contentAddressableStorageBlobAccess_Put_def Let_def)
  have s': "sent (calls @ [ReaderCloseCall]) = reqs" using s by (simp add: sent_append)
  show "\<exists>err k2 calls.
           contentAddressableStorageBlobAccess_Put C uuidGenerator readChunkSize d b_ToChunkReader k g
             = Inr (err, k2, g1, calls)
           \<and> map ResourceName (sent calls)
               = take (length (sent calls)) (write_resource_name d u # replicate (length chunks) '''')
           \<and> (chunks \<noteq> [] \<or> readErr = EOF \<longrightarrow> sent calls \<noteq> [])"
    using put s' n ne unfolding name by blast
qed

text \<open>
  A service that accepts every call and counts them, a generator that numbers its UUIDs, and
  a blob of three bytes in two chunks.
\<close>

definition example_client :: "nat ByteStreamClient" where
  "example_client =
     \<lparr>Read = (\<lambda>k req. (None, Suc k)), Write = (\<lambda>k. (None, Suc k)),
      Send = (\<lambda>k req. (None, Suc k)), CloseAndRecv = (\<lambda>k. (None, Suc k))\<rparr>"

definition example_uuidGenerator :: "nat \<Rightarrow> (string \<times> error option) \<times> nat" where
  "example_uuidGenerator g = ((''uuid-'' @ fmt_nat g, None), Suc g)"

definition example_chunks :: "int \<Rightarrow> ChunkPolicy \<Rightarrow> byte list list \<times> error" where
  "example_chunks off chunkPolicy = ([[104, 101], [121]], EOF)"

theorem remote_resource_names_witness:
  "contentAddressableStorageBlobAccess_Get example_client
       \<lparr>GetInstance = '''', GetHashString = ''abc123'', GetSizeBytes = 11\<rparr> 0
     = (externalBuffer (NewCASBufferFromChunkReader
          \<lparr>GetInstance = '''', GetHashString = ''abc123'', GetSizeBytes = 11\<rparr>
          (byteStreamChunkReader \<lparr>ReadResourceName = ''blobs/abc123/11''\<rparr>) Irreparable),
        1, [ReadRPC \<lparr>ReadResourceName = ''blobs/abc123/11''\<rparr>])
   \<and> read_resource_name example_digest = ''main/blobs/abc123/11''
   \<and> contentAddressableStorageBlobAccess_Put example_client example_uuidGenerator 2 example_digest
        example_chunks 0 7
     = Inr (None, 5, 8,
        [WriteRPC,
         SendRPC \<lparr>ResourceName = ''main/uploads/uuid-7/blobs/abc123/11'', WriteOffset = 0,
                  FinishWrite = False, Data = [104, 101]\<rparr>,
         SendRPC \<lparr>ResourceName = '''', WriteOffset = 2, FinishWrite = False, Data = [121]\<rparr>,
         SendRPC \<lparr>ResourceName = '''', WriteOffset = 3, FinishWrite = True, Data = []\<rparr>,
         CloseAndRecvRPC, ReaderCloseCall])
   \<and> write_resource_name example_digest ''uuid-7'' = ''main/uploads/uuid-7/blobs/abc123/11''"
  using remote_resource_names
      [where C = example_client
         and d = "\<lparr>GetInstance = '''', GetHashString = ''abc123'', GetSizeBytes = 11\<rparr>" and k = 0]
    remote_resource_names
      [where C = example_client and d = example_digest and k = 0 and ?k1.0 = 1
         and uuidGenerator = example_uuidGenerator and g = 7 and u = "''uuid-7''" and ?g1.0 = 8
         and b_ToChunkReader = example_chunks and readChunkSize = 2
         and chunks = "[[104, 101], [121]]" and readErr = EOF]
  by (simp add: contentAddressableStorageBlobAccess_Get_def contentAddressableStorageBlobAccess_Put_def
      example_client_def example_uuidGenerator_def example_chunks_def example_digest_def
      read_resource_name_def write_resource_name_def namespace_prefix_def fmt_d_def fmt_nat.simps
      digit_def Let_def)

section \<open>The circular backend (\<open>circularBlobAccess\<close>)\<close>

text \<open>
  The three stores are interfaces; each has a state of its own, which its methods may change.
  \<open>Cursors\<close> is declared outside the files at hand and stays a type parameter, with its
  method \<open>Contains\<close> a parameter of \<open>Put\<close>. Offsets are \<open>uint64\<close>, sizes \<open>int64\<close>. Only the
  methods \<open>Put\<close> calls are listed.
\<close>

record ('os, 'cur) OffsetStore =
  OffsetStore_Put :: "'os \<Rightarrow> Digest \<Rightarrow> 64 word \<Rightarrow> int \<Rightarrow> 'cur \<Rightarrow> error option \<times> 'os"

record ('ds, 'rd) DataStore =
  DataStore_Put :: "'ds \<Rightarrow> 'rd \<Rightarrow> 64 word \<Rightarrow> error option \<times> 'ds"

record ('ss, 'cur) StateStore =
  GetCursors :: "'ss \<Rightarrow> 'cur"
  Allocate :: "'ss \<Rightarrow> int \<Rightarrow> (64 word \<times> error option) \<times> 'ss"

text \<open>The state behind a \<open>circularBlobAccess\<close>: that of its three stores.\<close>

record ('os, 'ds, 'ss) circularBlobAccess =
  dataStore :: 'ds
  offsetStore :: 'os
  stateStore :: 'ss

fun Buffer_ToReader :: "'x Buffer \<Rightarrow> ('x, unit) Reader" where
  "Buffer_ToReader (errorBuffer err) = errorBuffer_ToReader err"
| "Buffer_ToReader (externalBuffer x) = externalToReader x"

text \<open>The calls \<open>Put\<close> makes, on the buffer, the lock and the stores, in their order.\<close>

datatype 'cur circular_call =
    BufferDiscardCall | BufferToReaderCall | CloseCall | LockCall | UnlockCall
  | AllocateCall int | DataStorePutCall "64 word" | GetCursorsCall
  | OffsetStorePutCall Digest "64 word" int 'cur

text \<open>
  \<open>Put\<close>. The lock is released between the allocation and the commit, and the data store is
  written without it: \<open>others1\<close> is what other goroutines do to the stores before the data is
  written and \<open>others2\<close> what they do afterwards, before the lock is taken again. The result
  is the error, the state of the stores and the calls made.
\<close>

definition circularBlobAccess_Put ::
  "'x ExternalBuffer \<Rightarrow> ('os, 'cur) OffsetStore \<Rightarrow> ('ds, ('x, unit) Reader) DataStore
     \<Rightarrow> ('ss, 'cur) StateStore \<Rightarrow> ('cur \<Rightarrow> 64 word \<Rightarrow> int \<Rightarrow> bool)
     \<Rightarrow> (('os, 'ds, 'ss) circularBlobAccess \<Rightarrow> ('os, 'ds, 'ss) circularBlobAccess)
     \<Rightarrow> (('os, 'ds, 'ss) circularBlobAccess \<Rightarrow> ('os, 'ds, 'ss) circularBlobAccess)
     \<Rightarrow> Digest \<Rightarrow> 'x Buffer \<Rightarrow> ('os, 'ds, 'ss) circularBlobAccess
     \<Rightarrow> error option \<times> ('os, 'ds, 'ss) circularBlobAccess \<times> 'cur circular_call list" where
  "circularBlobAccess_Put X OS DS SS Contains others1 others2 d b ba =
     (case Buffer_GetSizeBytes X b of
        (sizeBytes, Some err) \<Rightarrow> (Some err, ba, [BufferDiscardCall])
      | (sizeBytes, None) \<Rightarrow>
          (let r = Buffer_ToReader b in
           case Allocate SS (stateStore ba) sizeBytes of
             ((offset, Some err), ss') \<Rightarrow>
               (Some err, ba\<lparr>stateStore := ss'\<rparr>,
                [BufferToReaderCall, LockCall, AllocateCall sizeBytes, UnlockCall, CloseCall])
           | ((offset, None), ss') \<Rightarrow>
               (let ba1 = others1 (ba\<lparr>stateStore := ss'\<rparr>) in
                case DataStore_Put DS (dataStore ba1) r offset of
                  (Some err, ds') \<Rightarrow>
                    (Some err, ba1\<lparr>dataStore := ds'\<rparr>,
                     [BufferToReaderCall, LockCall, AllocateCall sizeBytes, UnlockCall,
                      DataStorePutCall offset, CloseCall])
                | (None, ds') \<Rightarrow>
                    (let ba2 = others2 (ba1\<lparr>dataStore := ds'\<rparr>);
                         cursors = GetCursors SS (stateStore ba2)
                     in if Contains cursors offset sizeBytes
                        then (case OffsetStore_Put OS (offsetStore ba2) d offset sizeBytes cursors of
                                (err, os') \<Rightarrow>
                                  (err, ba2\<lparr>offsetStore := os'\<rparr>,
                                   [BufferToReaderCall, LockCall, AllocateCall sizeBytes, UnlockCall,
                                    DataStorePutCall offset, LockCall, GetCursorsCall,
                                    OffsetStorePutCall d offset sizeBytes cursors, UnlockCall,
                                    CloseCall]))
                        else (Some (New ''Data became stale before write completed''), ba2,
                              [BufferToReaderCall, LockCall, AllocateCall sizeBytes, UnlockCall,
                               DataStorePutCall offset, LockCall, GetCursorsCall, UnlockCall,
                               CloseCall])))))"

text \<open>The calls of \<open>OffsetStore.Put\<close> in a call log.\<close>

fun is_OffsetStorePut :: "'cur circular_call \<Rightarrow> bool" where
  "is_OffsetStorePut (OffsetStorePutCall d offset sizeBytes cursors) = True"
| "is_OffsetStorePut _ = False"

fun is_store_call :: "'cur circular_call \<Rightarrow> bool" where
  "is_store_call (AllocateCall n) = True"
| "is_store_call (DataStorePutCall offset) = True"
| "is_store_call GetCursorsCall = True"
| "is_store_call (OffsetStorePutCall d offset sizeBytes cursors) = True"
| "is_store_call _ = False"

text \<open>
  C1. Take a \<open>Put\<close> whose buffer reports its size, whose allocation succeeds and whose data
  is written. It then takes the lock again and reads the cursors anew, as the other
  goroutines have left them. If these cursors contain the allocated region, \<open>offset\<close> with
  \<open>sizeBytes\<close>, it calls \<open>OffsetStore.Put\<close> once, with that region and these cursors, and
  returns its error. If they do not, it returns the error "Data became stale before write
  completed", \<open>OffsetStore.Put\<close> is not among its calls, and the offset store is as it was
  when the lock was taken: this \<open>Put\<close> leaves no entry.
\<close>

theorem circularBlobAccess_Put_commits_only_live_region:
  fixes OS :: "('os, 'cur) OffsetStore" and SS :: "('ss, 'cur) StateStore"
    and DS :: "('ds, ('x, unit) Reader) DataStore"
  assumes "Buffer_GetSizeBytes X b = (sizeBytes, None)"
    and "Allocate SS (stateStore ba) sizeBytes = ((offset, None), ss')"
    and "DataStore_Put DS (dataStore (others1 (ba\<lparr>stateStore := ss'\<rparr>))) (Buffer_ToReader b) offset
           = (None, ds')"
    and "ba2 = others2 ((others1 (ba\<lparr>stateStore := ss'\<rparr>))\<lparr>dataStore := ds'\<rparr>)"
    and "cursors = GetCursors SS (stateStore ba2)"
  shows "circularBlobAccess_Put X OS DS SS Contains others1 others2 d b ba =
      (if Contains cursors offset sizeBytes
       then (fst (OffsetStore_Put OS (offsetStore ba2) d offset sizeBytes cursors),
             ba2\<lparr>offsetStore := snd (OffsetStore_Put OS (offsetStore ba2) d offset sizeBytes cursors)\<rparr>,
             [BufferToReaderCall, LockCall, AllocateCall sizeBytes, UnlockCall,
              DataStorePutCall offset, LockCall, GetCursorsCall,
              OffsetStorePutCall d offset sizeBytes cursors, UnlockCall, CloseCall])
       else (Some (New ''Data became stale before write completed''), ba2,
             [BufferToReaderCall, LockCall, AllocateCall sizeBytes, UnlockCall,
              DataStorePutCall offset, LockCall, GetCursorsCall, UnlockCall, CloseCall]))
    \<and> (filter is_OffsetStorePut
          (snd (snd (circularBlobAccess_Put X OS DS SS Contains others1 others2 d b ba)))
        = (if Contains cursors offset sizeBytes
           then [OffsetStorePutCall d offset sizeBytes cursors] else []))
    \<and> (\<not> Contains cursors offset sizeBytes \<longrightarrow>
          offsetStore (fst (snd (circularBlobAccess_Put X OS DS SS Contains others1 others2 d b ba)))
            = offsetStore ba2)"
  using assms
  by (simp add: circularBlobAccess_Put_def Let_def split: prod.splits)

text \<open>
  C10. If \<open>GetSizeBytes\<close> of the buffer returns an error, \<open>Put\<close> discards the buffer and
  returns that error: its only call is the \<open>Discard\<close>, none goes to a store
  (\<open>StateStore.Allocate\<close>, \<open>DataStore.Put\<close>, \<open>GetCursors\<close>, \<open>OffsetStore.Put\<close>), and the state of
  the three stores is unchanged.
\<close>

theorem circularBlobAccess_Put_size_error:
  fixes OS :: "('os, 'cur) OffsetStore" and SS :: "('ss, 'cur) StateStore"
    and DS :: "('ds, ('x, unit) Reader) DataStore"
  assumes "Buffer_GetSizeBytes X b = (sizeBytes, Some err)"
  shows "circularBlobAccess_Put X OS DS SS Contains others1 others2 d b ba
           = (Some err, ba, [BufferDiscardCall])
    \<and> filter is_store_call
         (snd (snd (circularBlobAccess_Put X OS DS SS Contains others1 others2 d b ba))) = []"
  using assms
  by (simp add: circularBlobAccess_Put_def)


text \<open>
  A ring of 16 bytes as an example. The state store holds the cursors as the pair of the
  read and the write position; an allocation is placed at the write position and pushes the
  read position so that at most 16 bytes stay live. The data store accepts every write, and
  the offset store is the list of its entries. \<open>another_Put\<close> is a second writer allocating
  16 bytes while the lock is free.
\<close>

definition example_StateStore :: "(nat \<times> nat, nat \<times> nat) StateStore" where
  "example_StateStore =
     \<lparr>GetCursors = (\<lambda>ss. ss),
      Allocate = (\<lambda>(rd, wr) n. ((of_nat wr, None), (max rd (wr + nat n - 16), wr + nat n)))\<rparr>"

definition example_Contains :: "nat \<times> nat \<Rightarrow> 64 word \<Rightarrow> int \<Rightarrow> bool" where
  "example_Contains cursors offset sizeBytes =
     (fst cursors \<le> unat offset \<and> unat offset + nat sizeBytes \<le> snd cursors)"

definition example_DataStore :: "(unit, (nat, unit) Reader) DataStore" where
  "example_DataStore = \<lparr>DataStore_Put = (\<lambda>ds r offset. (None, ds))\<rparr>"

definition example_OffsetStore :: "((Digest \<times> 64 word \<times> int) list, nat \<times> nat) OffsetStore" where
  "example_OffsetStore =
     \<lparr>OffsetStore_Put = (\<lambda>os d offset sizeBytes cursors. (None, (d, offset, sizeBytes) # os))\<rparr>"

definition another_Put ::
  "((Digest \<times> 64 word \<times> int) list, unit, nat \<times> nat) circularBlobAccess
     \<Rightarrow> ((Digest \<times> 64 word \<times> int) list, unit, nat \<times> nat) circularBlobAccess" where
  "another_Put ba = ba\<lparr>stateStore := snd (Allocate example_StateStore (stateStore ba) 16)\<rparr>"

theorem circularBlobAccess_Put_commits_only_live_region_witness:
  "circularBlobAccess_Put example_buffers example_OffsetStore example_DataStore example_StateStore
       example_Contains another_Put id example_digest (externalBuffer 1)
       \<lparr>dataStore = (), offsetStore = [], stateStore = (0, 0)\<rparr>
     = (Some (New ''Data became stale before write completed''),
        \<lparr>dataStore = (), offsetStore = [], stateStore = (2, 18)\<rparr>,
        [BufferToReaderCall, LockCall, AllocateCall 2, UnlockCall, DataStorePutCall 0,
         LockCall, GetCursorsCall, UnlockCall, CloseCall])
   \<and> circularBlobAccess_Put example_buffers example_OffsetStore example_DataStore example_StateStore
       example_Contains id id example_digest (externalBuffer 1)
       \<lparr>dataStore = (), offsetStore = [], stateStore = (0, 0)\<rparr>
     = (None,
        \<lparr>dataStore = (), offsetStore = [(example_digest, 0, 2)], stateStore = (0, 2)\<rparr>,
        [BufferToReaderCall, LockCall, AllocateCall 2, UnlockCall, DataStorePutCall 0,
         LockCall, GetCursorsCall, OffsetStorePutCall example_digest 0 2 (0, 2), UnlockCall,
         CloseCall])"
proof -
  let ?ba = "\<lparr>dataStore = (), offsetStore = [] :: (Digest \<times> 64 word \<times> int) list,
              stateStore = (0 :: nat, 0 :: nat)\<rparr>"
  let ?stale = "\<lparr>dataStore = (), offsetStore = [] :: (Digest \<times> 64 word \<times> int) list,
              stateStore = (2 :: nat, 18 :: nat)\<rparr>"
  let ?live = "\<lparr>dataStore = (), offsetStore = [] :: (Digest \<times> 64 word \<times> int) list,
              stateStore = (0 :: nat, 2 :: nat)\<rparr>"
  have size: "Buffer_GetSizeBytes example_buffers (externalBuffer 1) = (2, None)"
    by (simp add: example_buffers_def)
  have alloc: "Allocate example_StateStore (stateStore ?ba) 2 = ((0, None), (0, 2))"
    by (simp add: example_StateStore_def)
  have put1: "DataStore_Put example_DataStore (dataStore (another_Put (?ba\<lparr>stateStore := (0, 2)\<rparr>)))
                (Buffer_ToReader (externalBuffer 1)) 0 = (None, ())"
    by (simp add: example_DataStore_def)
  have put2: "DataStore_Put example_DataStore (dataStore (id (?ba\<lparr>stateStore := (0, 2)\<rparr>)))
                (Buffer_ToReader (externalBuffer 1)) 0 = (None, ())"
    by (simp add: example_DataStore_def)
  have st1: "?stale = id ((another_Put (?ba\<lparr>stateStore := (0, 2)\<rparr>))\<lparr>dataStore := ()\<rparr>)"
    by (simp add: another_Put_def example_StateStore_def)
  have st2: "?live = id ((id (?ba\<lparr>stateStore := (0, 2)\<rparr>))\<lparr>dataStore := ()\<rparr>)"
    by simp
  have c1: "(2 :: nat, 18 :: nat) = GetCursors example_StateStore (stateStore ?stale)"
    by (simp add: example_StateStore_def)
  have c2: "(0 :: nat, 2 :: nat) = GetCursors example_StateStore (stateStore ?live)"
    by (simp add: example_StateStore_def)
  have n1: "\<not> example_Contains (2, 18) 0 2" by (simp add: example_Contains_def)
  have n2: "example_Contains (0, 2) 0 2" by (simp add: example_Contains_def)
  have o2: "OffsetStore_Put example_OffsetStore [] example_digest 0 2 (0 :: nat, 2 :: nat)
              = (None, [(example_digest, 0, 2)])"
    by (simp add: example_OffsetStore_def)
  note t1 = circularBlobAccess_Put_commits_only_live_region
      [where OS = example_OffsetStore and Contains = example_Contains and d = example_digest
         and X = example_buffers and b = "externalBuffer 1" and sizeBytes = 2
         and SS = example_StateStore and offset = 0 and ss' = "(0, 2)" and ba = ?ba
         and DS = example_DataStore and ?others1.0 = another_Put and ds' = "()"
         and ?others2.0 = id and ?ba2.0 = ?stale and cursors = "(2, 18)",
       OF size alloc put1 st1 c1, THEN conjunct1]
  note t2 = circularBlobAccess_Put_commits_only_live_region
      [where OS = example_OffsetStore and Contains = example_Contains and d = example_digest
         and X = example_buffers and b = "externalBuffer 1" and sizeBytes = 2
         and SS = example_StateStore and offset = 0 and ss' = "(0, 2)" and ba = ?ba
         and DS = example_DataStore and ?others1.0 = id and ds' = "()"
         and ?others2.0 = id and ?ba2.0 = ?live and cursors = "(0, 2)",
       OF size alloc put2 st2 c2, THEN conjunct1]
  show ?thesis
    unfolding t1 t2 using n1 n2 o2 by simp
qed

theorem circularBlobAccess_Put_size_error_witness:
  "Buffer_GetSizeBytes example_buffers (errorBuffer (External 5)) = (0, Some (External 5))
   \<and> circularBlobAccess_Put example_buffers example_OffsetStore example_DataStore example_StateStore
       example_Contains another_Put another_Put example_digest (errorBuffer (External 5))
       \<lparr>dataStore = (), offsetStore = [], stateStore = (0, 0)\<rparr>
     = (Some (External 5), \<lparr>dataStore = (), offsetStore = [], stateStore = (0, 0)\<rparr>,
        [BufferDiscardCall])"
proof -
  have size: "Buffer_GetSizeBytes example_buffers (errorBuffer (External 5)) = (0, Some (External 5))"
    by (simp add: errorBuffer_GetSizeBytes_def)
  from circularBlobAccess_Put_size_error
         [OF size, of example_OffsetStore example_DataStore example_StateStore example_Contains
            another_Put another_Put example_digest
            "\<lparr>dataStore = (), offsetStore = [], stateStore = (0, 0)\<rparr>"] size
  show ?thesis by simp
qed

end
